theory Spec2Isabelle
  imports Complex_Main "HOL-Library.AList" "HOL-Library.Sublist"
    "HOL-Library.Char_ord" "HOL-Library.List_Lexorder"
begin

section \<open>Common types\<close>

text \<open>
  Exceptions of the Python code are values: every function that can raise returns
  \<open>py_error + 'a\<close>, with \<open>Inl\<close> for the exception.
\<close>

datatype py_error =
    RuntimeError string
  | IndexError
  | KeyError
  | ValueError
  | AttributeError string
  | JSONDecodeError string
  | HTTPStatusError int string
  | TransportError string
  | HTTPException int string

text \<open>
  \<open>datetime.now()\<close> and \<open>time.time()\<close> read the clock: the model takes the reading as a
  parameter. Python floats are modelled as reals (only \<open>+\<close>, \<open>-\<close>, \<open>/\<close> and comparisons
  are used on them).
\<close>

type_synonym datetime = real

section \<open>Load balancer (src/services/load\_balancer.py)\<close>

datatype LoadBalancerStrategy = ROUND_ROBIN | LEAST_CONNECTIONS | RANDOM | WEIGHTED

record InstanceMetrics =
  instance_id :: string
  url :: string
  active_connections :: int
  total_requests :: int
  successful_requests :: int
  failed_requests :: int
  total_response_time :: real
  average_response_time :: real
  total_tokens :: int
  last_request_time :: "datetime option"
  last_error_time :: "datetime option"
  error_count :: int
  is_healthy :: bool
  health_check_failures :: int
  weight :: real

text \<open>
  The dataclass defaults: what \<open>InstanceMetrics(instance_id=..., url=..., weight=...)\<close>
  builds.
\<close>

definition new_InstanceMetrics :: "string \<Rightarrow> string \<Rightarrow> real \<Rightarrow> InstanceMetrics" where
  "new_InstanceMetrics iid u w =
     \<lparr> instance_id = iid, url = u, active_connections = 0, total_requests = 0,
       successful_requests = 0, failed_requests = 0, total_response_time = 0,
       average_response_time = 0, total_tokens = 0, last_request_time = None,
       last_error_time = None, error_count = 0, is_healthy = True,
       health_check_failures = 0, weight = w \<rparr>"

text \<open>
  The state of a \<open>LoadBalancer\<close> object. \<open>instances\<close> and \<open>request_distribution\<close> are
  Python dicts, which keep insertion order: association lists with distinct keys
  (\<open>AList.update\<close> overwrites in place or appends, as \<open>d[k] = v\<close> does;
  \<open>AList.delete\<close> is \<open>del d[k]\<close>; \<open>AList.map_entry\<close> is the in-place mutation of the
  object stored under a key). \<open>current_index\<close> starts at 0 and is only reset to 0 or
  incremented, so it is a natural number. The load balancer's own counter
  \<open>self.total_requests\<close> is called \<open>lb_total_requests\<close> here, the field name
  \<open>total_requests\<close> being taken by \<open>InstanceMetrics\<close>.
\<close>

record LoadBalancer =
  strategy :: LoadBalancerStrategy
  instances :: "(string \<times> InstanceMetrics) list"
  instance_list :: "string list"
  current_index :: nat
  lb_total_requests :: int
  request_distribution :: "(string \<times> int) list"

definition new_LoadBalancer :: "LoadBalancerStrategy \<Rightarrow> LoadBalancer" where
  "new_LoadBalancer st =
     \<lparr> strategy = st, instances = [], instance_list = [], current_index = 0,
       lb_total_requests = 0, request_distribution = [] \<rparr>"

definition has_instance :: "LoadBalancer \<Rightarrow> string \<Rightarrow> bool" where
  "has_instance lb iid = (map_of (instances lb) iid \<noteq> None)"

text \<open>\<open>url.rstrip("/")\<close>\<close>

definition rstrip_slash :: "string \<Rightarrow> string" where
  "rstrip_slash u = rev (dropWhile (\<lambda>c. c = CHR ''/'') (rev u))"

definition add_instance :: "LoadBalancer \<Rightarrow> string \<Rightarrow> string \<Rightarrow> real \<Rightarrow> LoadBalancer" where
  "add_instance lb iid u w =
     (if has_instance lb iid then lb
      else lb\<lparr> instances := AList.update iid (new_InstanceMetrics iid (rstrip_slash u) w) (instances lb),
               instance_list := instance_list lb @ [iid],
               request_distribution := AList.update iid 0 (request_distribution lb) \<rparr>)"

definition remove_instance :: "LoadBalancer \<Rightarrow> string \<Rightarrow> LoadBalancer" where
  "remove_instance lb iid =
     (if has_instance lb iid
      then lb\<lparr> instances := AList.delete iid (instances lb),
               instance_list := remove1 iid (instance_list lb),
               request_distribution := AList.delete iid (request_distribution lb) \<rparr>
      else lb)"

subsection \<open>Selection strategies\<close>

text \<open>
  \<open>_round_robin_select\<close>: the index is reset to 0 when it is past the end of the
  candidate list; \<open>instances[0]\<close> on an empty list raises \<open>IndexError\<close> (after the reset).
\<close>

definition round_robin_select ::
  "LoadBalancer \<Rightarrow> InstanceMetrics list \<Rightarrow> (py_error + InstanceMetrics) \<times> LoadBalancer" where
  "round_robin_select lb insts =
     (let lb1 = (if current_index lb \<ge> length insts then lb\<lparr>current_index := 0\<rparr> else lb)
      in if current_index lb1 < length insts
         then (Inr (insts ! current_index lb1), lb1\<lparr>current_index := current_index lb1 + 1\<rparr>)
         else (Inl IndexError, lb1))"

text \<open>
  Python's \<open>min(xs, key=k)\<close> scans from the left and replaces the candidate only by a
  strictly smaller key, so it returns the first minimal element; on an empty list it
  raises \<open>ValueError\<close>.
\<close>

fun min_by :: "('a \<Rightarrow> int) \<Rightarrow> 'a \<Rightarrow> 'a list \<Rightarrow> 'a" where
  "min_by k best [] = best"
| "min_by k best (x # xs) = (if k x < k best then min_by k x xs else min_by k best xs)"

definition least_connections_select :: "InstanceMetrics list \<Rightarrow> py_error + InstanceMetrics" where
  "least_connections_select insts =
     (case insts of [] \<Rightarrow> Inl ValueError | x # xs \<Rightarrow> Inr (min_by active_connections x xs))"

text \<open>
  \<open>random.choice\<close> and \<open>random.choices\<close> draw from the generator: the draw \<open>u\<close>, a
  number in \<open>[0, 1)\<close>, is a parameter. \<open>random.choices\<close> picks by bisection in the
  cumulative weights (written here for weights that are not negative) and raises
  \<open>ValueError\<close> when the total weight is not positive.
\<close>

definition random_select :: "real \<Rightarrow> InstanceMetrics list \<Rightarrow> py_error + InstanceMetrics" where
  "random_select u insts =
     (if insts = [] then Inl IndexError
      else Inr (insts ! min (length insts - 1) (nat \<lfloor>u * real (length insts)\<rfloor>)))"

fun accumulate :: "real \<Rightarrow> real list \<Rightarrow> real list" where
  "accumulate acc [] = []"
| "accumulate acc (w # ws) = (acc + w) # accumulate (acc + w) ws"

definition weighted_select :: "real \<Rightarrow> InstanceMetrics list \<Rightarrow> py_error + InstanceMetrics" where
  "weighted_select u insts =
     (let cum_weights = accumulate 0 (map weight insts)
      in if insts = [] then Inl IndexError
         else if last cum_weights \<le> 0 then Inl ValueError
         else Inr (insts ! length (takeWhile (\<lambda>c. c \<le> u * last cum_weights)
                                      (take (length insts - 1) cum_weights))))"

subsection \<open>get\_instance\<close>

definition healthy_instances :: "LoadBalancer \<Rightarrow> InstanceMetrics list" where
  "healthy_instances lb =
     (let healthy = filter is_healthy (map snd (instances lb))
      in if healthy = [] then map snd (instances lb) else healthy)"

definition select_instance ::
  "LoadBalancer \<Rightarrow> real \<Rightarrow> InstanceMetrics list \<Rightarrow> (py_error + InstanceMetrics) \<times> LoadBalancer" where
  "select_instance lb u insts =
     (case strategy lb of
        ROUND_ROBIN \<Rightarrow> round_robin_select lb insts
      | LEAST_CONNECTIONS \<Rightarrow> (least_connections_select insts, lb)
      | RANDOM \<Rightarrow> (random_select u insts, lb)
      | WEIGHTED \<Rightarrow> (weighted_select u insts, lb))"

text \<open>
  \<open>get_instance\<close>. The selected object is the one stored in the dict under its own
  \<open>instance_id\<close> (\<open>add_instance\<close> is the only writer of the dict), so the mutation of
  the selected object is a \<open>map_entry\<close> at that key. The returned value is the object
  after the mutation. \<open>now\<close> is the reading of \<open>datetime.now()\<close>.
\<close>

definition reserve :: "datetime \<Rightarrow> InstanceMetrics \<Rightarrow> InstanceMetrics" where
  "reserve now inst =
     inst\<lparr> active_connections := active_connections inst + 1,
           total_requests := total_requests inst + 1,
           last_request_time := Some now \<rparr>"

definition get_instance ::
  "LoadBalancer \<Rightarrow> real \<Rightarrow> datetime \<Rightarrow> (py_error + InstanceMetrics) \<times> LoadBalancer" where
  "get_instance lb u now =
     (let lb1 = lb\<lparr>lb_total_requests := lb_total_requests lb + 1\<rparr>
      in if instances lb1 = [] then (Inl (RuntimeError ''No instances available''), lb1)
         else
           (case select_instance lb1 u (healthy_instances lb1) of
              (Inl e, lb2) \<Rightarrow> (Inl e, lb2)
            | (Inr inst, lb2) \<Rightarrow>
                (let lb3 = lb2\<lparr>instances := AList.map_entry (instance_id inst) (reserve now) (instances lb2)\<rparr>
                 in case map_of (request_distribution lb3) (instance_id inst) of
                      None \<Rightarrow> (Inl KeyError, lb3)
                    | Some c \<Rightarrow>
                        (Inr (reserve now inst),
                         lb3\<lparr>request_distribution :=
                               AList.update (instance_id inst) (c + 1) (request_distribution lb3)\<rparr>))))"

subsection \<open>Registry operations on one instance\<close>

definition release_instance :: "LoadBalancer \<Rightarrow> string \<Rightarrow> LoadBalancer" where
  "release_instance lb iid =
     (if has_instance lb iid
      then lb\<lparr>instances := AList.map_entry iid
                 (\<lambda>inst. inst\<lparr>active_connections := max 0 (active_connections inst - 1)\<rparr>)
                 (instances lb)\<rparr>
      else lb)"

text \<open>The body of \<open>update_metrics\<close> on the instance object, statement by statement.\<close>

definition update_metrics_instance ::
  "bool \<Rightarrow> real \<Rightarrow> int \<Rightarrow> datetime \<Rightarrow> InstanceMetrics \<Rightarrow> InstanceMetrics" where
  "update_metrics_instance success response_time tokens_used now inst0 =
     (let inst = inst0\<lparr>active_connections := max 0 (active_connections inst0 - 1)\<rparr>
      in if success
         then
           (let i1 = inst\<lparr>successful_requests := successful_requests inst + 1\<rparr>;
                i2 = i1\<lparr>total_response_time := total_response_time i1 + response_time\<rparr>;
                i3 = i2\<lparr>total_tokens := total_tokens i2 + tokens_used\<rparr>;
                i4 = (if successful_requests i3 > 0
                      then i3\<lparr>average_response_time :=
                                total_response_time i3 / real_of_int (successful_requests i3)\<rparr>
                      else i3)
            in i4\<lparr>error_count := 0\<rparr>)
         else
           (let i1 = inst\<lparr>failed_requests := failed_requests inst + 1\<rparr>;
                i2 = i1\<lparr>error_count := error_count i1 + 1\<rparr>;
                i3 = i2\<lparr>last_error_time := Some now\<rparr>
            in if error_count i3 \<ge> 5 then i3\<lparr>is_healthy := False\<rparr> else i3))"

definition update_metrics ::
  "LoadBalancer \<Rightarrow> string \<Rightarrow> bool \<Rightarrow> real \<Rightarrow> int \<Rightarrow> datetime \<Rightarrow> LoadBalancer" where
  "update_metrics lb iid success response_time tokens_used now =
     (if has_instance lb iid
      then lb\<lparr>instances := AList.map_entry iid
                 (update_metrics_instance success response_time tokens_used now) (instances lb)\<rparr>
      else lb)"

definition mark_unhealthy :: "LoadBalancer \<Rightarrow> string \<Rightarrow> LoadBalancer" where
  "mark_unhealthy lb iid =
     (if has_instance lb iid
      then lb\<lparr>instances := AList.map_entry iid
                 (\<lambda>inst. inst\<lparr>is_healthy := False,
                              health_check_failures := health_check_failures inst + 1\<rparr>)
                 (instances lb)\<rparr>
      else lb)"

definition mark_healthy :: "LoadBalancer \<Rightarrow> string \<Rightarrow> LoadBalancer" where
  "mark_healthy lb iid =
     (if has_instance lb iid
      then lb\<lparr>instances := AList.map_entry iid
                 (\<lambda>inst. inst\<lparr>is_healthy := True, health_check_failures := 0\<rparr>)
                 (instances lb)\<rparr>
      else lb)"

definition get_instance_by_id :: "LoadBalancer \<Rightarrow> string \<Rightarrow> InstanceMetrics option" where
  "get_instance_by_id lb iid = map_of (instances lb) iid"

subsection \<open>Properties named by the specification\<close>

text \<open>
  The invariant of section 4.1: \<open>average_response_time\<close> is
  \<open>total_response_time / successful_requests\<close> when there was a successful request,
  else 0.
\<close>

definition average_ok :: "InstanceMetrics \<Rightarrow> bool" where
  "average_ok inst =
     (average_response_time inst =
        (if successful_requests inst > 0
         then total_response_time inst / real_of_int (successful_requests inst) else 0))"

text \<open>A registry state used to run the operations on concrete values.\<close>

definition example_instance :: InstanceMetrics where
  "example_instance =
     (new_InstanceMetrics ''ollama-1'' ''http://localhost:11434'' 1)
       \<lparr> active_connections := 1, total_requests := 6, successful_requests := 1,
         failed_requests := 4, total_response_time := 2, average_response_time := 2,
         error_count := 4 \<rparr>"

definition example_lb :: LoadBalancer where
  "example_lb =
     (new_LoadBalancer ROUND_ROBIN)
       \<lparr> instances := [(''ollama-1'', example_instance)], instance_list := [''ollama-1''],
         lb_total_requests := 6, request_distribution := [(''ollama-1'', 6)] \<rparr>"

subsection \<open>Sequential selections and the candidates' order\<close>

text \<open>
  \<open>round_robin_run n\<close> is \<open>n\<close> selections in a row over the same candidate list;
  \<open>rr_start\<close> is the index the first of them reads, after the reset.
\<close>

fun round_robin_run ::
  "nat \<Rightarrow> LoadBalancer \<Rightarrow> InstanceMetrics list \<Rightarrow> (py_error + InstanceMetrics) list" where
  "round_robin_run 0 lb insts = []"
| "round_robin_run (Suc n) lb insts =
     (case round_robin_select lb insts of (r, lb') \<Rightarrow> r # round_robin_run n lb' insts)"

definition rr_start :: "LoadBalancer \<Rightarrow> InstanceMetrics list \<Rightarrow> nat" where
  "rr_start lb insts = (if current_index lb \<ge> length insts then 0 else current_index lb)"

text \<open>
  The tie-break as the specification words it, for comparison with the code: the chosen
  candidate is least for (\<open>active_connections\<close>, \<open>total_requests\<close>, \<open>instance_id\<close>)
  in lexicographic order.
\<close>

definition spec_least_connections_choice :: "InstanceMetrics list \<Rightarrow> InstanceMetrics \<Rightarrow> bool" where
  "spec_least_connections_choice insts chosen =
     (chosen \<in> set insts \<and>
      (\<forall>x\<in>set insts.
         active_connections chosen < active_connections x
         \<or> (active_connections chosen = active_connections x
             \<and> (total_requests chosen < total_requests x
                 \<or> (total_requests chosen = total_requests x
                     \<and> instance_id chosen \<le> instance_id x)))))"

definition idle_first :: InstanceMetrics where
  "idle_first = (new_InstanceMetrics ''ollama-1'' ''http://localhost:11434'' 1)
                  \<lparr> total_requests := 5, successful_requests := 5 \<rparr>"

definition idle_second :: InstanceMetrics where
  "idle_second = (new_InstanceMetrics ''ollama-2'' ''http://localhost:11435'' 1)
                  \<lparr> total_requests := 2, successful_requests := 2 \<rparr>"

text \<open>
  The pick as the specification words it, for comparison with the code:
  \<open>candidates[cursor mod len]\<close>. \<open>picked_id\<close> reads the identifier of a selection.
\<close>

definition spec_round_robin_pick :: "LoadBalancer \<Rightarrow> InstanceMetrics list \<Rightarrow> InstanceMetrics" where
  "spec_round_robin_pick lb insts = insts ! (current_index lb mod length insts)"

definition picked_id :: "py_error + InstanceMetrics \<Rightarrow> string option" where
  "picked_id r = (case r of Inl e \<Rightarrow> None | Inr inst \<Rightarrow> Some (instance_id inst))"

text \<open>
  A load balancer with five backends that has served five requests, one by each
  backend, and in which the last two backends were then marked unhealthy: its cursor
  is 5 and three candidates are left.
\<close>

definition five_backends :: LoadBalancer where
  "five_backends =
     fold (\<lambda>(iid, u) lb. add_instance lb iid u 1)
       [(''ollama-1'', ''http://10.0.0.1:11434''), (''ollama-2'', ''http://10.0.0.2:11434''),
        (''ollama-3'', ''http://10.0.0.3:11434''), (''ollama-4'', ''http://10.0.0.4:11434''),
        (''ollama-5'', ''http://10.0.0.5:11434'')]
       (new_LoadBalancer ROUND_ROBIN)"

definition shrunk_balancer :: LoadBalancer where
  "shrunk_balancer =
     mark_unhealthy
       (mark_unhealthy
          (fold (\<lambda>now lb. snd (get_instance lb 0 now)) [1, 2, 3, 4, 5] five_backends)
          ''ollama-4'')
       ''ollama-5''"

section \<open>The registry under its operations\<close>

text \<open>
  \<open>_check_instance_health\<close> for the instance registered under \<open>iid\<close>; \<open>ok\<close> says
  whether \<open>GET /api/tags\<close> answered with status 200 (any other status, a timeout and any
  exception take the other branch). For an instance removed since the round started,
  \<open>mark_healthy\<close> and \<open>mark_unhealthy\<close> find no such id and change nothing.
\<close>

definition check_instance_health :: "LoadBalancer \<Rightarrow> string \<Rightarrow> bool \<Rightarrow> LoadBalancer" where
  "check_instance_health lb iid ok =
     (case map_of (instances lb) iid of
        None \<Rightarrow> lb
      | Some inst \<Rightarrow>
          if ok then (if \<not> is_healthy inst then mark_healthy lb iid else lb)
          else mark_unhealthy lb iid)"

text \<open>
  The events of the registry are the public operations of \<open>LoadBalancer\<close>, with any
  arguments: \<open>add_instance\<close>, \<open>remove_instance\<close>, \<open>get_instance\<close>, \<open>release_instance\<close>,
  \<open>update_metrics\<close>, \<open>mark_unhealthy\<close> and \<open>mark_healthy\<close>, and the health prober's
  check of one instance. A reachable state is what a list of events leaves, starting
  from a new load balancer. \<open>latest_check\<close> is a ghost field: the outcome of the latest
  health check of each registered instance, \<open>None\<close> when it has not been checked since
  it was added.
\<close>

datatype registry_event =
    AddInstance string string real
  | RemoveInstance string
  | GetInstance real datetime
  | ReleaseInstance string
  | UpdateMetrics string bool real int datetime
  | MarkUnhealthy string
  | MarkHealthy string
  | HealthCheck string bool

record registry_state =
  balancer :: LoadBalancer
  latest_check :: "string \<Rightarrow> bool option"

definition initial_registry :: "LoadBalancerStrategy \<Rightarrow> registry_state" where
  "initial_registry st = \<lparr> balancer = new_LoadBalancer st, latest_check = (\<lambda>_. None) \<rparr>"

fun registry_step :: "registry_state \<Rightarrow> registry_event \<Rightarrow> registry_state" where
  "registry_step s (AddInstance iid u w) = s\<lparr>balancer := add_instance (balancer s) iid u w\<rparr>"
| "registry_step s (RemoveInstance iid) =
     s\<lparr>balancer := remove_instance (balancer s) iid, latest_check := (latest_check s)(iid := None)\<rparr>"
| "registry_step s (GetInstance u now) = s\<lparr>balancer := snd (get_instance (balancer s) u now)\<rparr>"
| "registry_step s (ReleaseInstance iid) = s\<lparr>balancer := release_instance (balancer s) iid\<rparr>"
| "registry_step s (UpdateMetrics iid success rt tk now) =
     s\<lparr>balancer := update_metrics (balancer s) iid success rt tk now\<rparr>"
| "registry_step s (MarkUnhealthy iid) = s\<lparr>balancer := mark_unhealthy (balancer s) iid\<rparr>"
| "registry_step s (MarkHealthy iid) = s\<lparr>balancer := mark_healthy (balancer s) iid\<rparr>"
| "registry_step s (HealthCheck iid ok) =
     (if has_instance (balancer s) iid
      then s\<lparr>balancer := check_instance_health (balancer s) iid ok,
             latest_check := (latest_check s)(iid \<mapsto> ok)\<rparr>
      else s)"

definition run_events :: "registry_state \<Rightarrow> registry_event list \<Rightarrow> registry_state" where
  "run_events s evs = foldl registry_step s evs"

text \<open>
  The health invariant as the specification words it: healthy iff the latest health
  check succeeded and the consecutive error count is below 5.
\<close>

definition spec_health_invariant :: "registry_state \<Rightarrow> bool" where
  "spec_health_invariant s =
     (\<forall>(iid, inst)\<in>set (instances (balancer s)).
        is_healthy inst \<longleftrightarrow> (latest_check s iid = Some True \<and> error_count inst < 5))"

text \<open>What the code keeps instead: a healthy backend has no counted health-check failure.\<close>

definition healthy_flag_ok :: "registry_state \<Rightarrow> bool" where
  "healthy_flag_ok s =
     (\<forall>iid inst. map_of (instances (balancer s)) iid = Some inst \<longrightarrow> is_healthy inst \<longrightarrow>
        health_check_failures inst = 0)"

definition same_health :: "InstanceMetrics \<Rightarrow> InstanceMetrics \<Rightarrow> bool" where
  "same_health a b = (is_healthy a = is_healthy b \<and> health_check_failures a = health_check_failures b)"

text \<open>Five failed requests in a row, then a successful health check.\<close>

definition five_failures_then_probe :: "registry_event list" where
  "five_failures_then_probe =
     [AddInstance ''ollama-1'' ''http://localhost:11434'' 1,
      UpdateMetrics ''ollama-1'' False 30 0 1,
      UpdateMetrics ''ollama-1'' False 30 0 2,
      UpdateMetrics ''ollama-1'' False 30 0 3,
      UpdateMetrics ''ollama-1'' False 30 0 4,
      UpdateMetrics ''ollama-1'' False 30 0 5,
      HealthCheck ''ollama-1'' True]"

definition probed_instance :: InstanceMetrics where
  "probed_instance =
     (new_InstanceMetrics ''ollama-1'' ''http://localhost:11434'' 1)
       \<lparr> failed_requests := 5, last_error_time := Some 5, error_count := 5 \<rparr>"

section \<open>Rate limiting (src/api/middleware.py)\<close>












section \<open>Response cache (src/services/cache\_service.py)\<close>

text \<open>
  \<open>self.redis\<close> is \<open>None\<close> until \<open>initialize\<close> has connected, and again after a failed
  \<open>initialize\<close>. The Redis server is outside the program: \<open>redis_server\<close> gives what
  each awaited call does, a result or an exception. The field \<open>self.prefix\<close> is called
  \<open>key_prefix\<close> here, \<open>prefix\<close> being the name of the prefix test on lists.
\<close>

datatype Redis = Redis

record CacheService =
  redis :: "Redis option"
  key_prefix :: string
  hits :: int
  misses :: int
  errors :: int

definition new_CacheService :: CacheService where
  "new_CacheService = \<lparr> redis = None, key_prefix = ''llm:cache:'', hits = 0, misses = 0, errors = 0 \<rparr>"

record redis_server =
  redis_ping :: "py_error + unit"
  redis_get :: "string \<Rightarrow> py_error + string option"
  redis_setex :: "string \<Rightarrow> int \<Rightarrow> string \<Rightarrow> py_error + unit"

definition unreachable_server :: redis_server where
  "unreachable_server =
     \<lparr> redis_ping = Inl (TransportError ''Connection refused''),
       redis_get = (\<lambda>_. Inl (TransportError ''Connection refused'')),
       redis_setex = (\<lambda>_ _ _. Inl (TransportError ''Connection refused'')) \<rparr>"

text \<open>\<open>initialize\<close>: any exception of \<open>from_url\<close> or \<open>ping\<close> leaves \<open>self.redis = None\<close>.\<close>

definition cache_initialize :: "CacheService \<Rightarrow> redis_server \<Rightarrow> CacheService" where
  "cache_initialize cs srv =
     (case redis_ping srv of
        Inr _ \<Rightarrow> cs\<lparr>redis := Some Redis\<rparr>
      | Inl e \<Rightarrow> cs\<lparr>redis := None\<rparr>)"

text \<open>
  \<open>get\<close> and \<open>set\<close>. The body of each \<open>try\<close> is a function of its own, in which an
  exception is an \<open>Inl\<close> result (with the counters as they were when it was raised);
  the \<open>except Exception\<close> clause is the case distinction of the outer function.
  \<open>json.loads\<close> and \<open>json.dumps\<close> are parameters; \<open>settings.CACHE_TTL\<close> is
  \<open>cache_ttl\<close>. \<open>if value\<close> is false for \<open>None\<close> and for the empty string,
  \<open>ttl or settings.CACHE_TTL\<close> takes the setting for \<open>None\<close> and for 0.
\<close>

definition cache_get_try ::
  "(string \<Rightarrow> py_error + 'v) \<Rightarrow> CacheService \<Rightarrow> redis_server \<Rightarrow> string
     \<Rightarrow> (py_error + 'v option) \<times> CacheService" where
  "cache_get_try json_loads cs srv key =
     (let full_key = key_prefix cs @ key
      in case redis_get srv full_key of
           Inl e \<Rightarrow> (Inl e, cs)
         | Inr v \<Rightarrow>
             (if v \<noteq> None \<and> v \<noteq> Some []
              then (let cs1 = cs\<lparr>hits := hits cs + 1\<rparr>
                    in case json_loads (the v) of
                         Inl e \<Rightarrow> (Inl e, cs1)
                       | Inr x \<Rightarrow> (Inr (Some x), cs1))
              else (Inr None, cs\<lparr>misses := misses cs + 1\<rparr>)))"

definition cache_get ::
  "(string \<Rightarrow> py_error + 'v) \<Rightarrow> CacheService \<Rightarrow> redis_server \<Rightarrow> string
     \<Rightarrow> (py_error + 'v option) \<times> CacheService" where
  "cache_get json_loads cs srv key =
     (if redis cs = None then (Inr None, cs)
      else case cache_get_try json_loads cs srv key of
             (Inr r, cs') \<Rightarrow> (Inr r, cs')
           | (Inl e, cs') \<Rightarrow> (Inr None, cs'\<lparr>errors := errors cs' + 1\<rparr>))"

definition cache_set_try ::
  "('v \<Rightarrow> py_error + string) \<Rightarrow> int \<Rightarrow> CacheService \<Rightarrow> redis_server \<Rightarrow> string \<Rightarrow> 'v \<Rightarrow> int option
     \<Rightarrow> (py_error + bool) \<times> CacheService" where
  "cache_set_try json_dumps cache_ttl cs srv key val ttl =
     (let full_key = key_prefix cs @ key;
          ttl1 = (if ttl \<noteq> None \<and> ttl \<noteq> Some 0 then the ttl else cache_ttl)
      in case json_dumps val of
           Inl e \<Rightarrow> (Inl e, cs)
         | Inr serialized \<Rightarrow>
             (case redis_setex srv full_key ttl1 serialized of
                Inl e \<Rightarrow> (Inl e, cs)
              | Inr _ \<Rightarrow> (Inr True, cs)))"

definition cache_set ::
  "('v \<Rightarrow> py_error + string) \<Rightarrow> int \<Rightarrow> CacheService \<Rightarrow> redis_server \<Rightarrow> string \<Rightarrow> 'v \<Rightarrow> int option
     \<Rightarrow> (py_error + bool) \<times> CacheService" where
  "cache_set json_dumps cache_ttl cs srv key val ttl =
     (if redis cs = None then (Inr False, cs)
      else case cache_set_try json_dumps cache_ttl cs srv key val ttl of
             (Inr r, cs') \<Rightarrow> (Inr r, cs')
           | (Inl e, cs') \<Rightarrow> (Inr False, cs'\<lparr>errors := errors cs' + 1\<rparr>))"

text \<open>The service is unreachable: every call on it raises.\<close>

definition unreachable :: "redis_server \<Rightarrow> bool" where
  "unreachable srv =
     ((\<exists>e. redis_ping srv = Inl e) \<and> (\<forall>k. \<exists>e. redis_get srv k = Inl e)
      \<and> (\<forall>k t v. \<exists>e. redis_setex srv k t v = Inl e))"

definition connected_cache :: CacheService where
  "connected_cache = new_CacheService\<lparr>redis := Some Redis\<rparr>"

definition text_codec :: "string \<Rightarrow> py_error + string" where
  "text_codec s = Inr s"

section \<open>The chat endpoint (src/main.py)\<close>

subsection \<open>JSON values and Python's operations on them\<close>

text \<open>
  A decoded JSON document. An object is a dict: its entries in order, looked up by
  \<open>map_of\<close>. \<open>truthy\<close> is Python's truth value of a decoded value (\<open>if not message\<close>,
  \<open>if stream\<close>); \<open>dict_get\<close> is \<open>d.get(k, default)\<close>, an \<open>AttributeError\<close> when \<open>d\<close> is not
  a dict. \<open>py_str\<close> is \<open>str\<close> as an f-string applies it: the text itself for a
  string, and for every other value the parameter \<open>repr\<close>. \<open>error_text\<close> stands for
  \<open>str(e)\<close>.
\<close>

datatype json =
    JNull
  | JBool bool
  | JInt int
  | JReal real
  | JString string
  | JArray "json list"
  | JObject "(string \<times> json) list"

fun truthy :: "json \<Rightarrow> bool" where
  "truthy JNull = False"
| "truthy (JBool b) = b"
| "truthy (JInt i) = (i \<noteq> 0)"
| "truthy (JReal r) = (r \<noteq> 0)"
| "truthy (JString s) = (s \<noteq> [])"
| "truthy (JArray xs) = (xs \<noteq> [])"
| "truthy (JObject kv) = (kv \<noteq> [])"

definition dict_get :: "json \<Rightarrow> string \<Rightarrow> json \<Rightarrow> py_error + json" where
  "dict_get d k dflt =
     (case d of
        JObject kv \<Rightarrow> Inr (case map_of kv k of Some v \<Rightarrow> v | None \<Rightarrow> dflt)
      | _ \<Rightarrow> Inl (AttributeError ''get''))"

definition py_str :: "(json \<Rightarrow> string) \<Rightarrow> json \<Rightarrow> string" where
  "py_str repr v = (case v of JString s \<Rightarrow> s | _ \<Rightarrow> repr v)"

fun error_text :: "py_error \<Rightarrow> string" where
  "error_text (RuntimeError m) = m"
| "error_text IndexError = ''list index out of range''"
| "error_text KeyError = ''key''"
| "error_text ValueError = ''value''"
| "error_text (AttributeError m) = m"
| "error_text (JSONDecodeError m) = m"
| "error_text (HTTPStatusError c m) = m"
| "error_text (TransportError m) = m"
| "error_text (HTTPException c m) = m"

subsection \<open>Code blocks\<close>

text \<open>
  The loop of \<open>chat\<close> over the lines of the answer. A Python \<open>str\<close> is modelled by its
  UTF-8 encoding, a byte string. \<open>str.strip\<close> removes the white space of Unicode at
  both ends: the code points U+0009 to U+000D, U+001C to U+0020, U+0085, U+00A0,
  U+1680, U+2000 to U+200A, U+2028, U+2029, U+202F, U+205F and U+3000. \<open>space1\<close>,
  \<open>space2\<close> and \<open>space3\<close> recognise their encodings of one, two and three bytes;
  \<open>lstrip\<close> removes them at the front, \<open>rstrip_rev\<close> at the front of the reversed
  string (a lead byte of UTF-8 is never a continuation byte, so the last bytes of a
  string that spell such an encoding are that code point). \<open>split_on\<close> is \<open>str.split\<close>
  with a one-character separator, \<open>replace_fence\<close> is \<open>.replace(fence, '')\<close> for the
  three-backquote fence, \<open>join_lines\<close> is \<open>'\n'.join\<close>.
\<close>

definition newline :: char where "newline = CHR 0x0A"
definition fence :: string where "fence = [CHR 0x60, CHR 0x60, CHR 0x60]"

definition space1 :: "char \<Rightarrow> bool" where
  "space1 a = (a \<in> set [CHR 0x09, CHR 0x0A, CHR 0x0B, CHR 0x0C, CHR 0x0D,
                           CHR 0x1C, CHR 0x1D, CHR 0x1E, CHR 0x1F, CHR 0x20])"

definition space2 :: "char \<Rightarrow> char \<Rightarrow> bool" where
  "space2 a b = (a = CHR 0xC2 \<and> b \<in> set [CHR 0x85, CHR 0xA0])"

definition space3 :: "char \<Rightarrow> char \<Rightarrow> char \<Rightarrow> bool" where
  "space3 a b c =
     ((a = CHR 0xE1 \<and> b = CHR 0x9A \<and> c = CHR 0x80)
      \<or> (a = CHR 0xE2 \<and> b = CHR 0x80
          \<and> c \<in> set [CHR 0x80, CHR 0x81, CHR 0x82, CHR 0x83, CHR 0x84, CHR 0x85, CHR 0x86,
                         CHR 0x87, CHR 0x88, CHR 0x89, CHR 0x8A, CHR 0xA8, CHR 0xA9, CHR 0xAF])
      \<or> (a = CHR 0xE2 \<and> b = CHR 0x81 \<and> c = CHR 0x9F)
      \<or> (a = CHR 0xE3 \<and> b = CHR 0x80 \<and> c = CHR 0x80))"

fun lstrip :: "string \<Rightarrow> string" where
  "lstrip [] = []"
| "lstrip (a # s) =
     (if space1 a then lstrip s
      else (case s of
              [] \<Rightarrow> a # s
            | b # s2 \<Rightarrow>
                if space2 a b then lstrip s2
                else (case s2 of
                        [] \<Rightarrow> a # s
                      | c # s3 \<Rightarrow> if space3 a b c then lstrip s3 else a # s)))"

fun rstrip_rev :: "string \<Rightarrow> string" where
  "rstrip_rev [] = []"
| "rstrip_rev (c # s) =
     (if space1 c then rstrip_rev s
      else (case s of
              [] \<Rightarrow> c # s
            | b # s2 \<Rightarrow>
                if space2 b c then rstrip_rev s2
                else (case s2 of
                        [] \<Rightarrow> c # s
                      | a # s3 \<Rightarrow> if space3 a b c then rstrip_rev s3 else c # s)))"

definition strip :: "string \<Rightarrow> string" where
  "strip s = rev (rstrip_rev (rev (lstrip s)))"

fun split_on :: "char \<Rightarrow> string \<Rightarrow> string list" where
  "split_on sep [] = [[]]"
| "split_on sep (c # cs) =
     (if c = sep then [] # split_on sep cs
      else (case split_on sep cs of l # ls \<Rightarrow> (c # l) # ls | [] \<Rightarrow> [[c]]))"

fun replace_fence :: "string \<Rightarrow> string" where
  "replace_fence (a # b # c # rest) =
     (if [a, b, c] = [CHR 0x60, CHR 0x60, CHR 0x60] then replace_fence rest
      else a # replace_fence (b # c # rest))"
| "replace_fence s = s"

fun join_lines :: "string list \<Rightarrow> string" where
  "join_lines [] = []"
| "join_lines [l] = l"
| "join_lines (l # m # ls) = l @ [CHR 0x0A] @ join_lines (m # ls)"

record code_block =
  language :: string
  code :: string

fun extract_loop ::
  "string list \<Rightarrow> code_block list \<Rightarrow> bool \<Rightarrow> string list \<Rightarrow> string \<Rightarrow> code_block list" where
  "extract_loop [] code_blocks in_code_block current_code current_language = code_blocks"
| "extract_loop (line # lines) code_blocks in_code_block current_code current_language =
     (if prefix fence (strip line)
      then (if in_code_block
            then extract_loop lines
                   (if current_code \<noteq> []
                    then code_blocks @ [\<lparr> language = current_language, code = join_lines current_code \<rparr>]
                    else code_blocks)
                   False [] []
            else extract_loop lines code_blocks True current_code
                   (strip (replace_fence (strip line))))
      else if in_code_block
      then extract_loop lines code_blocks in_code_block (current_code @ [line]) current_language
      else extract_loop lines code_blocks in_code_block current_code current_language)"

definition extract_code_blocks :: "string \<Rightarrow> code_block list" where
  "extract_code_blocks full_response = extract_loop (split_on newline full_response) [] False [] []"

subsection \<open>The backend and the handler\<close>

text \<open>
  The backend is outside the program: \<open>upstream n target payload\<close> is what the \<open>n\<close>-th
  POST of a request (counted from 0) does, a response or an exception. \<open>http_post\<close>
  makes the POST and counts it, so that the number returned with the handler's result
  is the number of POSTs the handler made. A response body is the list of its
  non-blank lines, each a JSON document or (\<open>None\<close>) not one; a single document spread
  over several lines is not modelled. \<open>response.json()\<close> decodes the whole body, which
  succeeds only for a body of one document. \<open>raise_for_status\<close> raises for a status
  outside 200..299.
\<close>

record app_settings =
  OLLAMA_BASE_URL :: string
  DEFAULT_MODEL :: string
  TEMPERATURE :: real
  MAX_TOKENS :: int
  CACHE_TTL :: int

record generate_options =
  opt_temperature :: real
  opt_num_predict :: int

record generate_payload =
  payload_model :: json
  payload_prompt :: json
  payload_stream :: json
  payload_options :: generate_options

record http_response =
  status_code :: int
  body_lines :: "json option list"

type_synonym backend = "nat \<Rightarrow> string \<Rightarrow> generate_payload \<Rightarrow> py_error + http_response"

definition http_post ::
  "backend \<Rightarrow> nat \<Rightarrow> string \<Rightarrow> generate_payload \<Rightarrow> (py_error + http_response) \<times> nat" where
  "http_post upstream n target payload = (upstream n target payload, n + 1)"

definition raise_for_status :: "http_response \<Rightarrow> py_error + http_response" where
  "raise_for_status response =
     (if 200 \<le> status_code response \<and> status_code response < 300 then Inr response
      else Inl (HTTPStatusError (status_code response) ''HTTP status error''))"

definition response_json :: "http_response \<Rightarrow> py_error + json" where
  "response_json response =
     (case body_lines response of
        [Some d] \<Rightarrow> Inr d
      | Some d # _ # _ \<Rightarrow> Inl (JSONDecodeError ''Extra data'')
      | _ \<Rightarrow> Inl (JSONDecodeError ''Expecting value''))"

text \<open>
  The handler's result: a JSON body with status 200, a streaming response (the events
  of its generator, or the exception that ends it), or the \<open>HTTPException\<close> with
  status 500 that the outer \<open>except\<close> raises for every exception, the 400 for an empty
  message included.
\<close>

record chat_response =
  message :: string
  conversation_id :: int
  code_blocks :: "code_block list"
  tokens_used :: json
  model :: json

datatype sse_event = SseChunk json | SseDone

datatype chat_result =
    Json200 chat_response
  | StreamingResponse200 "py_error + sse_event list"
  | Http500 string

fun sse_events :: "json option list \<Rightarrow> sse_event list" where
  "sse_events [] = []"
| "sse_events (None # ls) = sse_events ls"
| "sse_events (Some (JObject kv) # ls) =
     (let chunk = (case map_of kv ''response'' of Some c \<Rightarrow> [SseChunk c] | None \<Rightarrow> [])
      in if truthy (case map_of kv ''done'' of Some v \<Rightarrow> v | None \<Rightarrow> JBool False)
         then chunk @ [SseDone]
         else chunk @ sse_events ls)"
| "sse_events (Some _ # ls) = sse_events ls"

definition chat_stream_generate ::
  "backend \<Rightarrow> nat \<Rightarrow> string \<Rightarrow> generate_payload \<Rightarrow> (py_error + sse_event list) \<times> nat" where
  "chat_stream_generate upstream n ollama_url payload =
     (case http_post upstream n ollama_url payload of
        (Inl e, n') \<Rightarrow> (Inl e, n')
      | (Inr response, n') \<Rightarrow> (Inr (sse_events (body_lines response)), n'))"

definition chat_non_streaming ::
  "backend \<Rightarrow> nat \<Rightarrow> string \<Rightarrow> generate_payload \<Rightarrow> json \<Rightarrow> (py_error + chat_response) \<times> nat" where
  "chat_non_streaming upstream n ollama_url payload model_name =
     (case http_post upstream n ollama_url payload of
        (Inl e, n') \<Rightarrow> (Inl e, n')
      | (Inr response, n') \<Rightarrow>
          (case raise_for_status response of
             Inl e \<Rightarrow> (Inl e, n')
           | Inr _ \<Rightarrow>
               (case response_json response of
                  Inl e \<Rightarrow> (Inl e, n')
                | Inr result \<Rightarrow>
                    (case dict_get result ''response'' (JString []) of
                       Inl e \<Rightarrow> (Inl e, n')
                     | Inr (JString full_response) \<Rightarrow>
                         (case dict_get result ''total_duration'' (JInt 0) of
                            Inl e \<Rightarrow> (Inl e, n')
                          | Inr duration \<Rightarrow>
                              (Inr \<lparr> message = full_response, conversation_id = 1,
                                     code_blocks = extract_code_blocks full_response,
                                     tokens_used = duration, model = model_name \<rparr>, n'))
                     | Inr _ \<Rightarrow> (Inl (AttributeError ''split''), n')))))"

definition fallback_response :: "(json \<Rightarrow> string) \<Rightarrow> json \<Rightarrow> json \<Rightarrow> py_error \<Rightarrow> chat_response" where
  "fallback_response repr msg model_name e =
     \<lparr> message = ''Test response (Ollama not available): You asked: '' @ [CHR 0x27] @ py_str repr msg
                   @ [CHR 0x27] @ ''. Model: '' @ py_str repr model_name
                   @ ''. This is a fallback response since Ollama connection failed: ''
                   @ error_text e,
       conversation_id = 1,
       code_blocks = [\<lparr> language = ''python'',
                         code = ''print('' @ [CHR 0x22] @ ''Fallback response for: '' @ py_str repr msg
                                @ [CHR 0x22] @ '')'' \<rparr>],
       tokens_used = JInt 0,
       model = model_name \<rparr>"

definition generate_url :: "app_settings \<Rightarrow> string" where
  "generate_url st = OLLAMA_BASE_URL st @ ''/api/generate''"

definition build_payload :: "app_settings \<Rightarrow> json \<Rightarrow> json \<Rightarrow> json \<Rightarrow> generate_payload" where
  "build_payload st model_name msg stream =
     \<lparr> payload_model = model_name, payload_prompt = msg, payload_stream = stream,
       payload_options = \<lparr> opt_temperature = TEMPERATURE st, opt_num_predict = MAX_TOKENS st \<rparr> \<rparr>"

definition chat_try ::
  "app_settings \<Rightarrow> (json \<Rightarrow> string) \<Rightarrow> backend \<Rightarrow> py_error + json \<Rightarrow> (py_error + chat_result) \<times> nat" where
  "chat_try st repr upstream request_json =
     (case request_json of
        Inl e \<Rightarrow> (Inl e, 0)
      | Inr data \<Rightarrow>
          (case dict_get data ''message'' (JString []) of
             Inl e \<Rightarrow> (Inl e, 0)
           | Inr msg \<Rightarrow>
               (case dict_get data ''model_name'' (JString (DEFAULT_MODEL st)) of
                  Inl e \<Rightarrow> (Inl e, 0)
                | Inr model_name \<Rightarrow>
                    (case dict_get data ''stream'' (JBool False) of
                       Inl e \<Rightarrow> (Inl e, 0)
                     | Inr stream \<Rightarrow>
                         if \<not> truthy msg
                         then (Inl (HTTPException 400 ''Message is required''), 0)
                         else
                           (let ollama_url = generate_url st;
                                payload = build_payload st model_name msg stream
                            in if truthy stream
                               then (case chat_stream_generate upstream 0 ollama_url payload of
                                       (r, n) \<Rightarrow> (Inr (StreamingResponse200 r), n))
                               else (case chat_non_streaming upstream 0 ollama_url payload model_name of
                                       (Inr r, n) \<Rightarrow> (Inr (Json200 r), n)
                                     | (Inl e, n) \<Rightarrow>
                                         (Inr (Json200 (fallback_response repr msg model_name e)), n)))))))"

definition chat ::
  "app_settings \<Rightarrow> (json \<Rightarrow> string) \<Rightarrow> backend \<Rightarrow> py_error + json \<Rightarrow> chat_result \<times> nat" where
  "chat st repr upstream request_json =
     (case chat_try st repr upstream request_json of
        (Inr r, n) \<Rightarrow> (r, n)
      | (Inl e, n) \<Rightarrow> (Http500 (error_text e), n))"

text \<open>The one attempt failed: the POST raised, or was answered with an error status.\<close>

definition attempt_fails :: "py_error + http_response \<Rightarrow> bool" where
  "attempt_fails r =
     (case r of Inl e \<Rightarrow> True
      | Inr response \<Rightarrow> \<not> (200 \<le> status_code response \<and> status_code response < 300))"

text \<open>
  Settings, a request and three backends to run the handler on: one that is down, one
  that answers with the three NDJSON frames of the specification's scenario, one that
  answers with a single JSON object.
\<close>

definition default_settings :: app_settings where
  "default_settings =
     \<lparr> OLLAMA_BASE_URL = ''http://localhost:11434'', DEFAULT_MODEL = ''deepseek-coder:6.7b'',
       TEMPERATURE = 7 / 10, MAX_TOKENS = 4096, CACHE_TTL = 3600 \<rparr>"

definition plain_repr :: "json \<Rightarrow> string" where
  "plain_repr v = []"

definition backend_down :: backend where
  "backend_down n target payload = Inl (TransportError ''All connection attempts failed'')"

definition hello_request :: json where
  "hello_request =
     JObject [(''message'', JString ''Write Python hello world''),
              (''model_name'', JString ''deepseek-coder:6.7b'')]"

definition ndjson_frames :: "json option list" where
  "ndjson_frames =
     [Some (JObject [(''response'', JString ''print'')]),
      Some (JObject [(''response'', JString (''('' @ [CHR 0x22] @ ''hi'' @ [CHR 0x22] @ '')''))]),
      Some (JObject [(''done'', JBool True), (''total_tokens'', JInt 3)])]"

definition ndjson_backend :: backend where
  "ndjson_backend n target payload = Inr \<lparr> status_code = 200, body_lines = ndjson_frames \<rparr>"

definition single_object_backend :: backend where
  "single_object_backend n target payload =
     Inr \<lparr> status_code = 200,
           body_lines = [Some (JObject [(''response'', JString (''print('' @ [CHR 0x22] @ ''hi'' @ [CHR 0x22] @ '')'')),
                                         (''done'', JBool True), (''total_duration'', JInt 5000000)])] \<rparr>"
text \<open>
  An answer whose first line opens a fence after a no-break space (U+00A0), and the
  backend that sends it.
\<close>

definition fenced_answer :: string where
  "fenced_answer =
     [CHR 0xC2, CHR 0xA0] @ fence @ ''py'' @ [newline] @ ''a = 1'' @ [newline] @ fence"

definition fenced_backend :: backend where
  "fenced_backend n target payload =
     Inr \<lparr> status_code = 200,
           body_lines = [Some (JObject [(''response'', JString fenced_answer),
                                        (''done'', JBool True)])] \<rparr>"

definition spec_expected_message :: string where
  "spec_expected_message = ''print('' @ [CHR 0x22] @ ''hi'' @ [CHR 0x22] @ '')''"

section \<open>Generation service (src/services/llm\_service.py)\<close>

text \<open>
  The state of an \<open>LLMService\<close>: its cache service, its load balancer (built with the
  default strategy, round robin) and its counters.
\<close>

record llm_stats =
  stat_total_requests :: int
  stat_cache_hits :: int
  stat_errors :: int
  stat_total_tokens :: int

record LLMService =
  cache_service :: CacheService
  load_balancer :: LoadBalancer
  stats :: llm_stats

definition new_LLMService :: LLMService where
  "new_LLMService =
     \<lparr> cache_service = new_CacheService,
       load_balancer = new_LoadBalancer ROUND_ROBIN,
       stats = \<lparr> stat_total_requests = 0, stat_cache_hits = 0, stat_errors = 0,
                  stat_total_tokens = 0 \<rparr> \<rparr>"

text \<open>
  A call of \<open>generate\<close> with \<open>stream=False\<close>, the non-streaming path. What the service
  reads from outside is \<open>llm_env\<close>: the settings, the digest that \<open>_generate_cache_key\<close>
  takes of model, prompt, temperature and max\_tokens, the JSON codec of the cache and
  the Redis server. \<open>x or default\<close> takes the default for \<open>None\<close> and for the empty
  string or zero.
\<close>

record generate_request =
  req_prompt :: string
  req_model :: "string option"
  req_temperature :: "real option"
  req_max_tokens :: "int option"
  req_cache :: bool

record llm_env =
  env_settings :: app_settings
  env_cache_key :: "string \<Rightarrow> string \<Rightarrow> real \<Rightarrow> int \<Rightarrow> string"
  env_json_loads :: "string \<Rightarrow> py_error + json"
  env_json_dumps :: "json \<Rightarrow> py_error + string"
  env_redis :: redis_server

definition resolved_model :: "app_settings \<Rightarrow> generate_request \<Rightarrow> string" where
  "resolved_model st req =
     (case req_model req of Some m \<Rightarrow> if m \<noteq> [] then m else DEFAULT_MODEL st
      | None \<Rightarrow> DEFAULT_MODEL st)"

definition resolved_temperature :: "app_settings \<Rightarrow> generate_request \<Rightarrow> real" where
  "resolved_temperature st req =
     (case req_temperature req of Some t \<Rightarrow> if t \<noteq> 0 then t else TEMPERATURE st
      | None \<Rightarrow> TEMPERATURE st)"

definition resolved_max_tokens :: "app_settings \<Rightarrow> generate_request \<Rightarrow> int" where
  "resolved_max_tokens st req =
     (case req_max_tokens req of Some n \<Rightarrow> if n \<noteq> 0 then n else MAX_TOKENS st
      | None \<Rightarrow> MAX_TOKENS st)"

definition generate_cache_key :: "llm_env \<Rightarrow> generate_request \<Rightarrow> string" where
  "generate_cache_key env req =
     env_cache_key env (req_prompt req) (resolved_model (env_settings env) req)
       (resolved_temperature (env_settings env) req) (resolved_max_tokens (env_settings env) req)"

text \<open>
  \<open>instance.id\<close>: \<open>get_instance\<close> returns an \<open>InstanceMetrics\<close>, a dataclass whose
  identifier field is \<open>instance_id\<close>; it has no attribute \<open>id\<close>, so the expression
  raises \<open>AttributeError\<close> wherever it is evaluated.
\<close>

definition instance_id_attr :: "InstanceMetrics \<Rightarrow> py_error + string" where
  "instance_id_attr inst = Inl (AttributeError ''InstanceMetrics object has no attribute id'')"

text \<open>
  The event loop runs a call of \<open>generate\<close> until it has to wait. \<open>generate_begin\<close> is
  the call up to \<open>await self.http_client.post\<close>: the cache lookup, which ends the call
  on a hit, then \<open>get_instance\<close> and the POST to the chosen backend;
  \<open>generate_dispatch\<close> is its part after the cache lookup. \<open>pending_post\<close> is what the
  suspended call holds. \<open>generate_resume\<close> is the rest of the call, run when the POST
  has returned or raised: \<open>generate_try\<close> is the body of the \<open>try\<close>, and the
  \<open>except Exception\<close> clause is the case distinction of \<open>generate_resume\<close>. The
  decorator \<open>@retry\<close> wraps the function that creates the generator object, which
  raises nothing; an exception raised while the generator runs is not retried.
\<close>

record pending_post =
  pp_instance :: InstanceMetrics
  pp_url :: string
  pp_payload :: generate_payload
  pp_start_time :: datetime
  pp_request :: generate_request

datatype begin_result =
    Yielded json
  | Raised py_error
  | AwaitingPost pending_post

definition generate_dispatch ::
  "llm_env \<Rightarrow> LLMService \<Rightarrow> generate_request \<Rightarrow> real \<Rightarrow> datetime \<Rightarrow> begin_result \<times> LLMService" where
  "generate_dispatch env svc req u now =
     (case get_instance (load_balancer svc) u now of
        (Inl e, lb') \<Rightarrow> (Raised e, svc\<lparr>load_balancer := lb'\<rparr>)
      | (Inr inst, lb') \<Rightarrow>
          (AwaitingPost
             \<lparr> pp_instance = inst,
               pp_url = url inst @ ''/api/generate'',
               pp_payload =
                 \<lparr> payload_model = JString (resolved_model (env_settings env) req),
                   payload_prompt = JString (req_prompt req),
                   payload_stream = JBool False,
                   payload_options =
                     \<lparr> opt_temperature = resolved_temperature (env_settings env) req,
                       opt_num_predict = resolved_max_tokens (env_settings env) req \<rparr> \<rparr>,
               pp_start_time = now,
               pp_request = req \<rparr>,
           svc\<lparr>load_balancer := lb'\<rparr>))"

definition generate_begin ::
  "llm_env \<Rightarrow> LLMService \<Rightarrow> generate_request \<Rightarrow> real \<Rightarrow> datetime \<Rightarrow> begin_result \<times> LLMService" where
  "generate_begin env svc req u now =
     (let svc1 = svc\<lparr>stats := (stats svc)\<lparr>stat_total_requests := stat_total_requests (stats svc) + 1\<rparr>\<rparr>
      in if req_cache req
         then (case cache_get (env_json_loads env) (cache_service svc1) (env_redis env)
                      (generate_cache_key env req) of
                 (Inl e, cs') \<Rightarrow> (Raised e, svc1\<lparr>cache_service := cs'\<rparr>)
               | (Inr cached, cs') \<Rightarrow>
                   (let svc2 = svc1\<lparr>cache_service := cs'\<rparr>
                    in if cached \<noteq> None \<and> truthy (the cached)
                       then (Yielded (the cached),
                             svc2\<lparr>stats := (stats svc2)\<lparr>stat_cache_hits := stat_cache_hits (stats svc2) + 1\<rparr>\<rparr>)
                       else generate_dispatch env svc2 req u now))
         else generate_dispatch env svc1 req u now)"

definition json_int :: "json \<Rightarrow> int" where
  "json_int v = (case v of JInt n \<Rightarrow> n | _ \<Rightarrow> 0)"

definition generate_try ::
  "llm_env \<Rightarrow> LLMService \<Rightarrow> pending_post \<Rightarrow> py_error + http_response \<Rightarrow> datetime
     \<Rightarrow> (py_error + json) \<times> LLMService" where
  "generate_try env svc p outcome now =
     (case outcome of
        Inl e \<Rightarrow> (Inl e, svc)
      | Inr response \<Rightarrow>
          (case raise_for_status response of
             Inl e \<Rightarrow> (Inl e, svc)
           | Inr _ \<Rightarrow>
               (case response_json response of
                  Inl e \<Rightarrow> (Inl e, svc)
                | Inr data \<Rightarrow>
                    (case dict_get data ''response'' (JString []) of
                       Inl e \<Rightarrow> (Inl e, svc)
                     | Inr full_response \<Rightarrow>
                         (let processing_time = now - pp_start_time p
                          in case instance_id_attr (pp_instance p) of
                               Inl e \<Rightarrow> (Inl e, svc)
                             | Inr iid \<Rightarrow>
                                 (case dict_get data ''total_tokens'' (JInt 0) of
                                    Inl e \<Rightarrow> (Inl e, svc)
                                  | Inr tokens \<Rightarrow>
                                      (let svc1 = svc\<lparr>load_balancer :=
                                                   update_metrics (load_balancer svc) iid True
                                                     processing_time (json_int tokens) now\<rparr>;
                                           svc2 = svc1\<lparr>stats := (stats svc1)\<lparr>stat_total_tokens :=
                                                   stat_total_tokens (stats svc1) + json_int tokens\<rparr>\<rparr>
                                       in if req_cache (pp_request p)
                                          then (case cache_set (env_json_dumps env)
                                                       (CACHE_TTL (env_settings env)) (cache_service svc2)
                                                       (env_redis env)
                                                       (generate_cache_key env (pp_request p))
                                                       full_response
                                                       (Some (CACHE_TTL (env_settings env))) of
                                                  (Inl e, cs') \<Rightarrow> (Inl e, svc2\<lparr>cache_service := cs'\<rparr>)
                                                | (Inr _, cs') \<Rightarrow>
                                                    (Inr full_response, svc2\<lparr>cache_service := cs'\<rparr>))
                                          else (Inr full_response, svc2))))))))"

definition generate_resume ::
  "llm_env \<Rightarrow> LLMService \<Rightarrow> pending_post \<Rightarrow> py_error + http_response \<Rightarrow> datetime
     \<Rightarrow> (py_error + json) \<times> LLMService" where
  "generate_resume env svc p outcome now =
     (case generate_try env svc p outcome now of
        (Inr full_response, svc') \<Rightarrow> (Inr full_response, svc')
      | (Inl e, svc') \<Rightarrow>
          (let svc1 = svc'\<lparr>stats := (stats svc')\<lparr>stat_errors := stat_errors (stats svc') + 1\<rparr>\<rparr>
           in case instance_id_attr (pp_instance p) of
                Inl e2 \<Rightarrow> (Inl e2, svc1)
              | Inr iid \<Rightarrow>
                  (Inl e, svc1\<lparr>load_balancer := mark_unhealthy (load_balancer svc1) iid\<rparr>)))"

text \<open>
  Concurrent calls. \<open>upstream_log\<close> lists the POSTs sent to backends, \<open>pending_posts\<close>
  the suspended calls by task, \<open>outcomes\<close> what each finished call returned or raised.
  An event is one step of the event loop: \<open>Begin\<close> starts the call of a task and runs
  it to its POST, \<open>Complete\<close> delivers the outcome of a task's POST and runs the call to
  its end. Calls are concurrent when their \<open>Complete\<close> events come after the \<open>Begin\<close>
  events of the others.
\<close>

record gateway =
  service :: LLMService
  upstream_log :: "(string \<times> generate_payload) list"
  pending_posts :: "(nat \<times> pending_post) list"
  outcomes :: "(nat \<times> (py_error + json)) list"

datatype gen_event =
    Begin nat generate_request real datetime
  | Complete nat "py_error + http_response" datetime

fun gateway_step :: "llm_env \<Rightarrow> gateway \<Rightarrow> gen_event \<Rightarrow> gateway" where
  "gateway_step env g (Begin tid req u now) =
     (case generate_begin env (service g) req u now of
        (Yielded v, svc') \<Rightarrow> g\<lparr>service := svc', outcomes := outcomes g @ [(tid, Inr v)]\<rparr>
      | (Raised e, svc') \<Rightarrow> g\<lparr>service := svc', outcomes := outcomes g @ [(tid, Inl e)]\<rparr>
      | (AwaitingPost p, svc') \<Rightarrow>
          g\<lparr>service := svc',
            upstream_log := upstream_log g @ [(pp_url p, pp_payload p)],
            pending_posts := pending_posts g @ [(tid, p)]\<rparr>)"
| "gateway_step env g (Complete tid outcome now) =
     (case map_of (pending_posts g) tid of
        None \<Rightarrow> g
      | Some p \<Rightarrow>
          (case generate_resume env (service g) p outcome now of
             (r, svc') \<Rightarrow>
               g\<lparr>service := svc',
                 pending_posts := AList.delete tid (pending_posts g),
                 outcomes := outcomes g @ [(tid, r)]\<rparr>))"

definition gateway_run :: "llm_env \<Rightarrow> gateway \<Rightarrow> gen_event list \<Rightarrow> gateway" where
  "gateway_run env g evs = foldl (gateway_step env) g evs"

text \<open>
  A load balancer from which round robin can select: it has an instance, and every
  instance has its entry in \<open>request_distribution\<close>.
\<close>

definition registry_wf :: "LoadBalancer \<Rightarrow> bool" where
  "registry_wf lb =
     (strategy lb = ROUND_ROBIN \<and> instances lb \<noteq> []
      \<and> (\<forall>(k, inst)\<in>set (instances lb). map_of (request_distribution lb) (instance_id inst) \<noteq> None))"

fun begun :: "gen_event \<Rightarrow> generate_request option" where
  "begun (Begin tid req u now) = Some req"
| "begun (Complete tid outcome now) = None"

definition gateway_inv :: "llm_env \<Rightarrow> string \<Rightarrow> gateway \<Rightarrow> bool" where
  "gateway_inv env key g =
     (registry_wf (load_balancer (service g))
      \<and> fst (cache_get (env_json_loads env) (cache_service (service g)) (env_redis env) key) = Inr None)"

text \<open>
  A service with one backend and a connected, empty cache, and two concurrent requests
  for the same prompt.
\<close>

definition empty_redis :: redis_server where
  "empty_redis =
     \<lparr> redis_ping = Inr (), redis_get = (\<lambda>_. Inr None), redis_setex = (\<lambda>_ _ _. Inr ()) \<rparr>"

definition example_env :: llm_env where
  "example_env =
     \<lparr> env_settings = default_settings,
       env_cache_key = (\<lambda>prompt model_name temp max_tok. model_name @ '':'' @ prompt),
       env_json_loads = (\<lambda>s. Inr (JString s)),
       env_json_dumps = (\<lambda>v. Inr (py_str plain_repr v)),
       env_redis = empty_redis \<rparr>"

definition example_service :: LLMService where
  "example_service =
     new_LLMService
       \<lparr> cache_service := cache_initialize new_CacheService empty_redis,
         load_balancer := add_instance (new_LoadBalancer ROUND_ROBIN) ''ollama-1''
                            ''http://localhost:11434'' 1 \<rparr>"

definition example_gateway :: gateway where
  "example_gateway =
     \<lparr> service = example_service, upstream_log = [], pending_posts = [], outcomes = [] \<rparr>"

definition hello_generate :: generate_request where
  "hello_generate =
     \<lparr> req_prompt = ''Write Python hello world'', req_model = None, req_temperature = None,
       req_max_tokens = None, req_cache = True \<rparr>"

definition hello_answer :: http_response where
  "hello_answer =
     \<lparr> status_code = 200,
       body_lines = [Some (JObject [(''response'', JString spec_expected_message),
                                    (''done'', JBool True), (''total_tokens'', JInt 3)])] \<rparr>"

definition two_concurrent :: "gen_event list" where
  "two_concurrent =
     [Begin 0 hello_generate 0 1, Begin 1 hello_generate 0 2,
      Complete 0 (Inr hello_answer) 3, Complete 1 (Inr hello_answer) 4]"

section \<open>Theorems\<close>

subsection \<open>Lookup after an in-place update\<close>

lemma get_after_map_entry:
  "map_of al k = Some v \<Longrightarrow> map_of (AList.map_entry k f al) k = Some (f v)"
  by (simp add: map_of_map_entry)

subsection \<open>The first minimum of a list\<close>

lemma min_by_split:
  "\<exists>pre r post. b # xs = pre @ r # post \<and> min_by k b xs = r
      \<and> (\<forall>y\<in>set pre. k r < k y) \<and> (\<forall>y\<in>set post. k r \<le> k y)"
proof (induction xs arbitrary: b)
  case Nil
  have "[b] = [] @ b # [] \<and> min_by k b [] = b
      \<and> (\<forall>y\<in>set []. k b < k y) \<and> (\<forall>y\<in>set []. k b \<le> k y)" by simp
  then show ?case by blast
next
  case (Cons x xs)
  show ?case
  proof (cases "k x < k b")
    case True
    from Cons.IH [of x] obtain pre r post where
      s: "x # xs = pre @ r # post" "min_by k x xs = r"
         "\<forall>y\<in>set pre. k r < k y" "\<forall>y\<in>set post. k r \<le> k y"
      by blast
    have "x \<in> set (pre @ r # post)" using s(1) by (metis list.set_intros(1))
    then have "k r \<le> k x" using s(3,4) by auto
    then have rb: "k r < k b" using True by simp
    have m: "min_by k b (x # xs) = r" using True s(2) by simp
    have l: "b # x # xs = (b # pre) @ r # post" using s(1) by simp
    have p: "\<forall>y\<in>set (b # pre). k r < k y" using rb s(3) by simp
    show ?thesis using m l p s(4) by blast
  next
    case False
    from Cons.IH [of b] obtain pre r post where
      s: "b # xs = pre @ r # post" "min_by k b xs = r"
         "\<forall>y\<in>set pre. k r < k y" "\<forall>y\<in>set post. k r \<le> k y"
      by blast
    have m: "min_by k b (x # xs) = r" using False s(2) by simp
    show ?thesis
    proof (cases pre)
      case Nil
      then have rb: "r = b" "post = xs" using s(1) by simp_all
      have l: "b # x # xs = [] @ r # (x # post)" using rb by simp
      have p: "\<forall>y\<in>set (x # post). k r \<le> k y" using rb False s(4) by simp
      have q: "\<forall>y\<in>set []. k r < k y" by simp
      show ?thesis using m l p q by blast
    next
      case (Cons p pre2)
      then have pb: "p = b" "xs = pre2 @ r # post" using s(1) by simp_all
      have rb: "k r < k b" using s(3) Cons pb by simp
      have l: "b # x # xs = (b # x # pre2) @ r # post" using pb by simp
      have q: "\<forall>y\<in>set (b # x # pre2). k r < k y" using rb False s(3) Cons by simp
      show ?thesis using m l q s(4) by blast
    qed
  qed
qed

subsection \<open>Cyclic selection\<close>

lemma mod_below_twice:
  fixes x K :: nat
  assumes "x < 2 * K"
  shows "x mod K = (if x < K then x else x - K)"
proof (cases "x < K")
  case True then show ?thesis by simp
next
  case False
  then have "x mod K = (x - K) mod K" by (simp add: le_mod_geq)
  moreover have "x - K < K" using assms False by simp
  ultimately show ?thesis using False by simp
qed

lemma rr_hit:
  fixes c0 j K N :: nat
  assumes "c0 < K" "j < K"
  shows "((c0 + N) mod K = j) \<longleftrightarrow> ((j + K - c0) mod K = N mod K)"
proof -
  define n where "n = N mod K"
  have nK: "n < K" using assms by (simp add: n_def)
  have a: "(c0 + N) mod K = (c0 + n) mod K" by (simp add: n_def mod_add_right_eq)
  have b: "(c0 + n) mod K = (if c0 + n < K then c0 + n else c0 + n - K)"
    using assms nK by (intro mod_below_twice) simp
  have c: "(j + K - c0) mod K = (if j + K - c0 < K then j + K - c0 else j + K - c0 - K)"
    using assms by (intro mod_below_twice) simp
  show ?thesis unfolding a b c n_def [symmetric] using assms nK by (auto split: if_splits)
qed

lemma ceil_div:
  fixes K N :: nat
  assumes "0 < K"
  shows "(N + K - 1) div K = (if N mod K = 0 then N div K else N div K + 1)"
proof -
  define q r where "q = N div K" and "r = N mod K"
  have N: "N = q * K + r" and rK: "r < K" using assms by (simp_all add: q_def r_def)
  show ?thesis
  proof (cases "r = 0")
    case True
    then have "N + K - 1 = q * K + (K - 1)" using N assms by simp
    moreover have "(q * K + (K - 1)) div K = q + (K - 1) div K" using assms
      by (metis div_mult_self3 less_numeral_extra(3))
    ultimately have "(N + K - 1) div K = q + (K - 1) div K" by simp
    then show ?thesis using True assms by (simp add: q_def r_def)
  next
    case False
    then have "N + K - 1 = (q + 1) * K + (r - 1)" using N assms by simp
    moreover have "((q + 1) * K + (r - 1)) div K = (q + 1) + (r - 1) div K" using assms
      by (metis div_mult_self3 less_numeral_extra(3))
    ultimately have "(N + K - 1) div K = (q + 1) + (r - 1) div K" by simp
    then show ?thesis using False rK by (simp add: q_def r_def)
  qed
qed

lemma round_robin_select_step:
  assumes "insts \<noteq> []"
  shows "round_robin_select lb insts
           = (Inr (insts ! rr_start lb insts), lb\<lparr>current_index := rr_start lb insts + 1\<rparr>)"
  using assms by (simp add: round_robin_select_def rr_start_def Let_def)

lemma rr_start_next:
  assumes "insts \<noteq> []"
  shows "rr_start (lb\<lparr>current_index := Suc (rr_start lb insts)\<rparr>) insts
           = Suc (rr_start lb insts) mod length insts"
proof -
  have "rr_start lb insts < length insts" using assms by (simp add: rr_start_def)
  then show ?thesis by (auto simp: rr_start_def mod_below_twice)
qed

lemma round_robin_run_cyclic:
  assumes "insts \<noteq> []"
  shows "round_robin_run N lb insts
           = map (\<lambda>i. Inr (insts ! ((rr_start lb insts + i) mod length insts))) [0..<N]"
proof (induction N arbitrary: lb)
  case 0
  show ?case by simp
next
  case (Suc N)
  let ?K = "length insts"
  let ?c = "rr_start lb insts"
  let ?lb' = "lb\<lparr>current_index := ?c + 1\<rparr>"
  have c: "?c < ?K" using assms by (simp add: rr_start_def)
  have "round_robin_run (Suc N) lb insts = Inr (insts ! ?c) # round_robin_run N ?lb' insts"
    using assms by (simp add: round_robin_select_step)
  also have "round_robin_run N ?lb' insts
      = map (\<lambda>i. Inr (insts ! (((?c + 1) mod ?K + i) mod ?K))) [0..<N]"
    using Suc.IH [of ?lb'] rr_start_next [OF assms, of lb] by simp
  also have "\<dots> = map (\<lambda>i. Inr (insts ! ((?c + Suc i) mod ?K))) [0..<N]"
    by (simp add: mod_add_left_eq)
  also have "\<dots> = map (\<lambda>i. Inr (insts ! ((?c + i) mod ?K))) (map Suc [0..<N])"
    by (simp add: comp_def)
  finally have "round_robin_run (Suc N) lb insts
      = Inr (insts ! ((?c + 0) mod ?K)) # map (\<lambda>i. Inr (insts ! ((?c + i) mod ?K))) (map Suc [0..<N])"
    using c by simp
  also have "\<dots> = map (\<lambda>i. Inr (insts ! ((?c + i) mod ?K))) (0 # map Suc [0..<N])"
    by simp
  also have "0 # map Suc [0..<N] = [0..<Suc N]"
    by (simp add: map_Suc_upt upt_conv_Cons del: upt_Suc)
  finally show ?case .
qed

lemma cyclic_count:
  fixes insts :: "'a list"
  assumes "distinct insts" "c0 < length insts" "j < length insts"
  shows "count_list (map (\<lambda>i. (Inr (insts ! ((c0 + i) mod length insts)) :: 'e + 'a)) [0..<N]) (Inr (insts ! j))
           = N div length insts
             + (if (j + length insts - c0) mod length insts < N mod length insts then 1 else 0)"
proof (induction N)
  case 0
  show ?case by simp
next
  case (Suc N)
  let ?K = "length insts"
  have K: "0 < ?K" using assms(2) by (cases insts) simp_all
  have idx: "(c0 + N) mod ?K < ?K" using K by simp
  have hit: "(insts ! ((c0 + N) mod ?K) = insts ! j) \<longleftrightarrow> ((j + ?K - c0) mod ?K = N mod ?K)"
    using assms idx by (simp add: nth_eq_iff_index_eq rr_hit)
  have d: "(j + ?K - c0) mod ?K < ?K" using K by simp
  have r: "N mod ?K < ?K" using K by simp
  show ?case
  proof (cases "Suc (N mod ?K) = ?K")
    case True
    then have "Suc N mod ?K = 0" "Suc N div ?K = Suc (N div ?K)"
      by (simp_all add: mod_Suc div_Suc)
    then show ?thesis using Suc hit d True by auto
  next
    case False
    then have "Suc N mod ?K = Suc (N mod ?K)" "Suc N div ?K = N div ?K"
      by (simp_all add: mod_Suc div_Suc)
    then show ?thesis using Suc hit by auto
  qed
qed

lemma shrunk_balancer_state:
  "current_index shrunk_balancer = 5"
  "map instance_id (healthy_instances shrunk_balancer) = [''ollama-1'', ''ollama-2'', ''ollama-3'']"
  by (simp_all add: shrunk_balancer_def five_backends_def add_instance_def has_instance_def
        new_LoadBalancer_def new_InstanceMetrics_def rstrip_slash_def get_instance_def
        select_instance_def round_robin_select_def healthy_instances_def reserve_def
        mark_unhealthy_def Let_def)

subsection \<open>Events keep the registry invariant\<close>

lemma select_instance_instances:
  "instances (snd (select_instance lb u insts)) = instances lb"
  by (simp add: select_instance_def round_robin_select_def Let_def split: LoadBalancerStrategy.splits)

lemma get_instance_lookup:
  "map_of (instances (snd (get_instance lb u now))) iid = None \<longleftrightarrow> map_of (instances lb) iid = None"
  "map_of (instances (snd (get_instance lb u now))) iid = Some i' \<Longrightarrow>
     \<exists>i. map_of (instances lb) iid = Some i \<and> same_health i' i"
proof -
  let ?lb1 = "lb\<lparr>lb_total_requests := lb_total_requests lb + 1\<rparr>"
  have inst: "instances (snd (select_instance ?lb1 u (healthy_instances ?lb1))) = instances lb"
    by (simp add: select_instance_instances)
  obtain r lb2 where sel: "select_instance ?lb1 u (healthy_instances ?lb1) = (r, lb2)"
    by (cases "select_instance ?lb1 u (healthy_instances ?lb1)")
  have i2: "instances lb2 = instances lb" using inst sel by simp
  have shape: "instances (snd (get_instance lb u now)) = instances lb
      \<or> (\<exists>k. instances (snd (get_instance lb u now)) = AList.map_entry k (reserve now) (instances lb))"
    using sel i2
    by (auto simp: get_instance_def Let_def split: sum.splits option.splits)
  show "map_of (instances (snd (get_instance lb u now))) iid = None \<longleftrightarrow> map_of (instances lb) iid = None"
    using shape by (auto simp: map_of_map_entry split: option.splits if_splits)
  show "map_of (instances (snd (get_instance lb u now))) iid = Some i' \<Longrightarrow>
     \<exists>i. map_of (instances lb) iid = Some i \<and> same_health i' i"
    using shape by (auto simp: map_of_map_entry same_health_def reserve_def split: option.splits if_splits)
qed

lemma registry_step_inv:
  assumes "healthy_flag_ok s"
  shows "healthy_flag_ok (registry_step s ev)"
proof (cases ev)
  case (AddInstance iid u w)
  then show ?thesis using assms
    by (auto simp: healthy_flag_ok_def add_instance_def has_instance_def
          update_conv' new_InstanceMetrics_def split: if_splits)
next
  case (RemoveInstance iid)
  then show ?thesis using assms
    by (auto simp: healthy_flag_ok_def remove_instance_def has_instance_def
          delete_conv' split: if_splits)
next
  case (GetInstance u now)
  then show ?thesis using assms get_instance_lookup [of "balancer s" u now]
    by (fastforce simp: healthy_flag_ok_def same_health_def)
next
  case (ReleaseInstance iid)
  then show ?thesis using assms
    by (auto simp: healthy_flag_ok_def release_instance_def has_instance_def
          map_of_map_entry split: if_splits option.splits)
next
  case (UpdateMetrics iid success rt tk now)
  then show ?thesis using assms
    by (auto simp: healthy_flag_ok_def update_metrics_def has_instance_def
          update_metrics_instance_def Let_def map_of_map_entry split: if_splits option.splits)
next
  case (MarkUnhealthy iid)
  then show ?thesis using assms
    by (auto simp: healthy_flag_ok_def mark_unhealthy_def has_instance_def
          map_of_map_entry split: if_splits option.splits)
next
  case (MarkHealthy iid)
  then show ?thesis using assms
    by (auto simp: healthy_flag_ok_def mark_healthy_def has_instance_def
          map_of_map_entry split: if_splits option.splits)
next
  case (HealthCheck iid ok)
  then show ?thesis using assms
    by (auto simp: healthy_flag_ok_def check_instance_health_def
          mark_unhealthy_def mark_healthy_def has_instance_def
          map_of_map_entry split: if_splits option.splits)
qed

lemma run_events_inv: "healthy_flag_ok s \<Longrightarrow> healthy_flag_ok (run_events s evs)"
  unfolding run_events_def
  by (induction evs arbitrary: s) (simp_all add: registry_step_inv)

lemma initial_registry_inv: "healthy_flag_ok (initial_registry st)"
  by (simp add: healthy_flag_ok_def initial_registry_def new_LoadBalancer_def)

lemma five_failures_then_probe_state:
  "instances (balancer (run_events (initial_registry ROUND_ROBIN) five_failures_then_probe))
     = [(''ollama-1'', probed_instance)]"
  "latest_check (run_events (initial_registry ROUND_ROBIN) five_failures_then_probe) ''ollama-1''
     = Some True"
  by (simp_all add: run_events_def five_failures_then_probe_def initial_registry_def
      new_LoadBalancer_def add_instance_def has_instance_def update_metrics_def update_metrics_instance_def
      new_InstanceMetrics_def check_instance_health_def mark_healthy_def rstrip_slash_def probed_instance_def)

subsection \<open>Requests inside one window\<close>






subsection \<open>The unreachable server\<close>

lemma unreachable_server_unreachable: "unreachable unreachable_server"
  by (simp add: unreachable_def unreachable_server_def)

subsection \<open>The non-streaming path of the chat handler\<close>

lemma chat_fallback_step:
  assumes "dict_get data ''message'' (JString []) = Inr msg" and "truthy msg"
    and "dict_get data ''model_name'' (JString (DEFAULT_MODEL st)) = Inr model_name"
    and "dict_get data ''stream'' (JBool False) = Inr stream" and "\<not> truthy stream"
  shows "chat st repr upstream (Inr data)
           = (case chat_non_streaming upstream 0 (generate_url st)
                     (build_payload st model_name msg stream) model_name of
                (Inr r, n) \<Rightarrow> (Json200 r, n)
              | (Inl e, n) \<Rightarrow> (Json200 (fallback_response repr msg model_name e), n))"
  using assms by (simp add: chat_def chat_try_def Let_def split: prod.splits sum.splits)

lemma chat_non_streaming_fails:
  assumes "attempt_fails (upstream 0 target payload)"
  shows "\<exists>e. chat_non_streaming upstream 0 target payload model_name = (Inl e, 1)"
  using assms
  by (auto simp: attempt_fails_def chat_non_streaming_def http_post_def raise_for_status_def
        split: sum.splits)

lemma hello_fields:
  "dict_get hello_request ''message'' (JString []) = Inr (JString ''Write Python hello world'')"
  "truthy (JString ''Write Python hello world'')"
  "dict_get hello_request ''model_name'' (JString (DEFAULT_MODEL default_settings))
     = Inr (JString ''deepseek-coder:6.7b'')"
  "dict_get hello_request ''stream'' (JBool False) = Inr (JBool False)"
  "\<not> truthy (JBool False)"
  by (simp_all add: dict_get_def hello_request_def)

subsection \<open>Code blocks of an answer\<close>

lemma extract_loop_no_fence:
  "list_all (\<lambda>l. \<not> prefix fence (strip l)) lines \<Longrightarrow>
     extract_loop lines blocks False cur lang = blocks"
  by (induction lines arbitrary: cur lang) simp_all

lemma extract_code_blocks_no_fence:
  "list_all (\<lambda>l. \<not> prefix fence (strip l)) (split_on newline txt) \<Longrightarrow>
     extract_code_blocks txt = []"
  by (simp add: extract_code_blocks_def extract_loop_no_fence)

lemma fenced_answer_blocks:
  "extract_code_blocks fenced_answer = [\<lparr> language = ''py'', code = ''a = 1'' \<rparr>]"
  by (simp add: extract_code_blocks_def fenced_answer_def fence_def newline_def strip_def
        space1_def space2_def space3_def)

lemma expected_message_lines:
  "list_all (\<lambda>l. \<not> prefix fence (strip l)) (split_on newline spec_expected_message)"
  by (simp add: spec_expected_message_def fence_def newline_def strip_def
        space1_def space2_def space3_def)

subsection \<open>A request that misses the cache\<close>

lemma set_map_entry:
  "(k', v') \<in> set (AList.map_entry k f al) \<Longrightarrow>
     (k', v') \<in> set al \<or> (\<exists>v. (k', v) \<in> set al \<and> v' = f v)"
  by (induction al) (auto split: if_splits)

lemma map_entry_Nil_iff: "AList.map_entry k f al = [] \<longleftrightarrow> al = []"
  by (cases al) auto

lemma healthy_instances_subset:
  "set (healthy_instances lb) \<subseteq> snd ` set (instances lb)"
  by (auto simp: healthy_instances_def Let_def)

lemma healthy_instances_nonempty:
  "instances lb \<noteq> [] \<Longrightarrow> healthy_instances lb \<noteq> []"
  by (simp add: healthy_instances_def Let_def)

lemma get_instance_wf:
  assumes "registry_wf lb"
  shows "\<exists>inst lb'. get_instance lb u now = (Inr inst, lb') \<and> registry_wf lb'"
proof -
  let ?lb1 = "lb\<lparr>lb_total_requests := lb_total_requests lb + 1\<rparr>"
  let ?insts = "healthy_instances ?lb1"
  have ne: "?insts \<noteq> []" using assms by (simp add: registry_wf_def healthy_instances_nonempty)
  let ?inst = "?insts ! rr_start ?lb1 ?insts"
  let ?lb2 = "?lb1\<lparr>current_index := rr_start ?lb1 ?insts + 1\<rparr>"
  have sel: "select_instance ?lb1 u ?insts = (Inr ?inst, ?lb2)"
    using assms ne by (simp add: select_instance_def registry_wf_def round_robin_select_step)
  have "rr_start ?lb1 ?insts < length ?insts" using ne by (simp add: rr_start_def)
  then have "?inst \<in> set ?insts" by simp
  then have "?inst \<in> snd ` set (instances lb)"
    using healthy_instances_subset [of ?lb1] by auto
  then obtain k where k: "(k, ?inst) \<in> set (instances lb)" by auto
  then obtain c where c: "map_of (request_distribution lb) (instance_id ?inst) = Some c"
    using assms by (auto simp: registry_wf_def)
  let ?lb3 = "?lb2\<lparr>instances := AList.map_entry (instance_id ?inst) (reserve now) (instances ?lb2)\<rparr>"
  let ?lb4 = "?lb3\<lparr>request_distribution :=
                 AList.update (instance_id ?inst) (c + 1) (request_distribution ?lb3)\<rparr>"
  have res: "get_instance lb u now = (Inr (reserve now ?inst), ?lb4)"
    using assms sel c by (simp add: get_instance_def registry_wf_def Let_def)
  have "registry_wf ?lb4"
    unfolding registry_wf_def
  proof (intro conjI)
    show "strategy ?lb4 = ROUND_ROBIN" using assms by (simp add: registry_wf_def)
    show "instances ?lb4 \<noteq> []" using assms by (simp add: registry_wf_def map_entry_Nil_iff)
    show "\<forall>(k, inst)\<in>set (instances ?lb4).
            map_of (request_distribution ?lb4) (instance_id inst) \<noteq> None"
    proof (clarify)
      fix k' i' y
      assume m: "(k', i') \<in> set (instances ?lb4)"
      then have "(k', i') \<in> set (AList.map_entry (instance_id ?inst) (reserve now) (instances lb))"
        by simp
      from set_map_entry [OF this]
      obtain i0 where i0: "(k', i0) \<in> set (instances lb)" "instance_id i' = instance_id i0"
        by (auto simp: reserve_def)
      then have "map_of (request_distribution lb) (instance_id i') \<noteq> None"
        using assms by (auto simp: registry_wf_def)
      then show "\<exists>y. map_of (request_distribution ?lb4) (instance_id i') = Some y"
        by (auto simp: update_conv')
    qed
  qed
  then show ?thesis using res by blast
qed

lemma cache_get_client:
  "redis (snd (cache_get loads cs srv key)) = redis cs
   \<and> key_prefix (snd (cache_get loads cs srv key)) = key_prefix cs"
  by (auto simp: cache_get_def cache_get_try_def Let_def split: sum.splits prod.splits if_splits)

lemma cache_get_fst_cong:
  assumes "redis cs' = redis cs" "key_prefix cs' = key_prefix cs"
  shows "fst (cache_get loads cs' srv key) = fst (cache_get loads cs srv key)"
  using assms
  by (auto simp: cache_get_def cache_get_try_def Let_def split: sum.splits prod.splits if_splits)

lemma generate_resume_raises:
  "\<exists>e. generate_resume env svc p outcome now
        = (Inl e, svc\<lparr>stats := (stats svc)\<lparr>stat_errors := stat_errors (stats svc) + 1\<rparr>\<rparr>)"
proof -
  have "\<exists>e. generate_try env svc p outcome now = (Inl e, svc)"
    by (auto simp: generate_try_def instance_id_attr_def Let_def split: sum.splits)
  then show ?thesis
    by (auto simp: generate_resume_def instance_id_attr_def Let_def)
qed

lemma generate_dispatch_wf:
  assumes "registry_wf (load_balancer svc)"
  shows "\<exists>p svc'. generate_dispatch env svc req u now = (AwaitingPost p, svc')
           \<and> registry_wf (load_balancer svc') \<and> cache_service svc' = cache_service svc"
proof -
  from get_instance_wf [OF assms, of u now] obtain inst lb' where
    "get_instance (load_balancer svc) u now = (Inr inst, lb')" "registry_wf lb'" by blast
  then show ?thesis by (simp add: generate_dispatch_def)
qed

lemma generate_begin_miss:
  assumes "registry_wf (load_balancer svc)"
    and "fst (cache_get (env_json_loads env) (cache_service svc) (env_redis env) key) = Inr None"
    and "generate_cache_key env req = key"
  shows "\<exists>p svc'. generate_begin env svc req u now = (AwaitingPost p, svc')
           \<and> registry_wf (load_balancer svc')
           \<and> fst (cache_get (env_json_loads env) (cache_service svc') (env_redis env) key) = Inr None"
proof -
  let ?svc1 = "svc\<lparr>stats := (stats svc)\<lparr>stat_total_requests := stat_total_requests (stats svc) + 1\<rparr>\<rparr>"
  show ?thesis
  proof (cases "req_cache req")
    case False
    from generate_dispatch_wf [of ?svc1 env req u now] assms(1)
    obtain p svc' where d: "generate_dispatch env ?svc1 req u now = (AwaitingPost p, svc')"
      "registry_wf (load_balancer svc')" "cache_service svc' = cache_service ?svc1" by auto
    then show ?thesis using False assms(2) by (simp add: generate_begin_def Let_def)
  next
    case True
    obtain r cs' where g: "cache_get (env_json_loads env) (cache_service svc) (env_redis env) key = (r, cs')"
      by (cases "cache_get (env_json_loads env) (cache_service svc) (env_redis env) key")
    then have r: "r = Inr None" using assms(2) by simp
    have cl: "redis cs' = redis (cache_service svc)" "key_prefix cs' = key_prefix (cache_service svc)"
      using cache_get_client [of "env_json_loads env" "cache_service svc" "env_redis env" key] g by simp_all
    let ?svc2 = "?svc1\<lparr>cache_service := cs'\<rparr>"
    from generate_dispatch_wf [of ?svc2 env req u now] assms(1)
    obtain p svc' where d: "generate_dispatch env ?svc2 req u now = (AwaitingPost p, svc')"
      "registry_wf (load_balancer svc')" "cache_service svc' = cs'" by auto
    have "fst (cache_get (env_json_loads env) cs' (env_redis env) key) = Inr None"
      using cache_get_fst_cong [OF cl, of "env_json_loads env" "env_redis env" key] assms(2)
      by simp
    then show ?thesis using True g r d assms(3) by (simp add: generate_begin_def Let_def)
  qed
qed

lemma gateway_step_count:
  assumes "gateway_inv env key g"
    and "\<forall>req. begun ev = Some req \<longrightarrow> generate_cache_key env req = key"
  shows "gateway_inv env key (gateway_step env g ev)
       \<and> length (upstream_log (gateway_step env g ev))
           = length (upstream_log g) + (if begun ev = None then 0 else 1)"
proof (cases ev)
  case (Begin tid req u now)
  then have k: "generate_cache_key env req = key" using assms(2) by simp
  from generate_begin_miss [of "service g" env key req u now] assms(1) k
  obtain p svc' where "generate_begin env (service g) req u now = (AwaitingPost p, svc')"
    "registry_wf (load_balancer svc')"
    "fst (cache_get (env_json_loads env) (cache_service svc') (env_redis env) key) = Inr None"
    by (auto simp: gateway_inv_def)
  then show ?thesis using Begin by (simp add: gateway_inv_def)
next
  case (Complete tid outcome now)
  show ?thesis
  proof (cases "map_of (pending_posts g) tid")
    case None
    then show ?thesis using Complete assms(1) by simp
  next
    case (Some p)
    from generate_resume_raises [of env "service g" p outcome now] obtain e where
      "generate_resume env (service g) p outcome now
        = (Inl e, (service g)\<lparr>stats := (stats (service g))\<lparr>stat_errors := stat_errors (stats (service g)) + 1\<rparr>\<rparr>)"
      by blast
    then show ?thesis using Complete Some assms(1) by (simp add: gateway_inv_def)
  qed
qed

lemma gateway_run_count:
  assumes "gateway_inv env key g"
    and "\<forall>req\<in>set (List.map_filter begun evs). generate_cache_key env req = key"
  shows "gateway_inv env key (gateway_run env g evs)
       \<and> length (upstream_log (gateway_run env g evs))
           = length (upstream_log g) + length (List.map_filter begun evs)"
  using assms
proof (induction evs arbitrary: g)
  case Nil
  then show ?case by (simp add: gateway_run_def List.map_filter_simps)
next
  case (Cons ev evs)
  have a: "\<forall>req. begun ev = Some req \<longrightarrow> generate_cache_key env req = key"
    using Cons.prems(2) by (auto simp: List.map_filter_simps)
  have b: "\<forall>req\<in>set (List.map_filter begun evs). generate_cache_key env req = key"
    using Cons.prems(2) by (auto simp: List.map_filter_simps split: option.splits)
  from gateway_step_count [OF Cons.prems(1) a]
  have s: "gateway_inv env key (gateway_step env g ev)"
    "length (upstream_log (gateway_step env g ev))
       = length (upstream_log g) + (if begun ev = None then 0 else 1)" by simp_all
  from Cons.IH [OF s(1) b]
  have "gateway_inv env key (gateway_run env (gateway_step env g ev) evs)"
    "length (upstream_log (gateway_run env (gateway_step env g ev) evs))
       = length (upstream_log (gateway_step env g ev)) + length (List.map_filter begun evs)"
    by simp_all
  then show ?case using s(2)
    by (auto simp: gateway_run_def List.map_filter_simps split: option.splits)
qed

lemma example_gateway_ready:
  "registry_wf (load_balancer (service example_gateway))"
  "fst (cache_get (env_json_loads example_env) (cache_service (service example_gateway))
          (env_redis example_env) (generate_cache_key example_env hello_generate)) = Inr None"
  "\<forall>req\<in>set (List.map_filter begun two_concurrent).
     generate_cache_key example_env req = generate_cache_key example_env hello_generate"
  "length (List.map_filter begun two_concurrent) = 2"
  "upstream_log example_gateway = []"
  by (simp_all add: registry_wf_def example_gateway_def example_service_def new_LLMService_def
        add_instance_def new_LoadBalancer_def has_instance_def new_InstanceMetrics_def
        cache_get_def cache_get_try_def cache_initialize_def new_CacheService_def empty_redis_def
        example_env_def two_concurrent_def List.map_filter_simps Let_def)

text \<open>
  C1 as stated fails: two concurrent non-streaming cacheable requests for the same
  prompt, model, temperature and max\_tokens both miss the cache and both POST to the
  backend, so two upstream calls are made.
\<close>

theorem single_flight_counterexample:
  "length (upstream_log (gateway_run example_env example_gateway two_concurrent)) = 2"
proof -
  have "gateway_inv example_env (generate_cache_key example_env hello_generate) example_gateway"
    using example_gateway_ready(1,2) by (simp add: gateway_inv_def)
  from gateway_run_count [OF this example_gateway_ready(3)]
  show ?thesis using example_gateway_ready(4,5) by simp
qed

text \<open>
  C1, amended. There is no single-flight gate: every non-streaming cacheable request
  whose cache lookup misses sends its own POST to a backend. For requests that share a
  cache key which the cache does not hold, in any interleaving of their steps, the
  number of upstream calls is the number of requests begun.
\<close>

theorem every_miss_calls_upstream:
  assumes "registry_wf (load_balancer (service g))"
    and "fst (cache_get (env_json_loads env) (cache_service (service g)) (env_redis env) key) = Inr None"
    and "\<forall>req\<in>set (List.map_filter begun evs). generate_cache_key env req = key"
  shows "length (upstream_log (gateway_run env g evs))
           = length (upstream_log g) + length (List.map_filter begun evs)"
proof -
  have "gateway_inv env key g" using assms(1,2) by (simp add: gateway_inv_def)
  from gateway_run_count [OF this assms(3)] show ?thesis by simp
qed

theorem every_miss_calls_upstream_witness:
  "registry_wf (load_balancer (service example_gateway))
   \<and> fst (cache_get (env_json_loads example_env) (cache_service (service example_gateway))
          (env_redis example_env) (generate_cache_key example_env hello_generate)) = Inr None
   \<and> list_all (\<lambda>req. generate_cache_key example_env req = generate_cache_key example_env hello_generate)
         (List.map_filter begun two_concurrent)
   \<and> length (List.map_filter begun two_concurrent) = 2
   \<and> length (upstream_log (gateway_run example_env example_gateway two_concurrent)) = 2"
proof -
  have "length (upstream_log (gateway_run example_env example_gateway two_concurrent))
          = length (upstream_log example_gateway) + length (List.map_filter begun two_concurrent)"
    using every_miss_calls_upstream [OF example_gateway_ready(1,2,3)] .
  then have "length (upstream_log (gateway_run example_env example_gateway two_concurrent)) = 2"
    using example_gateway_ready(4,5) by simp
  then show ?thesis
    using example_gateway_ready(1,2,3,4) by (simp add: list_all_iff)
qed

text \<open>
  C2 as stated fails: with the backend down the fallback is returned after one POST,
  not after a retry budget of three, and its code-block list is not empty.
\<close>

theorem chat_fallback_counterexample:
  "snd (chat default_settings plain_repr backend_down (Inr hello_request)) = 1
   \<and> fst (chat default_settings plain_repr backend_down (Inr hello_request))
       = Json200 (fallback_response plain_repr (JString ''Write Python hello world'')
                    (JString ''deepseek-coder:6.7b'')
                    (TransportError ''All connection attempts failed''))
   \<and> code_blocks (fallback_response plain_repr (JString ''Write Python hello world'')
                    (JString ''deepseek-coder:6.7b'')
                    (TransportError ''All connection attempts failed''))
       = [\<lparr> language = ''python'',
             code = ''print('' @ [CHR 0x22] @ ''Fallback response for: Write Python hello world''
                    @ [CHR 0x22] @ '')'' \<rparr>]"
proof -
  have "chat_non_streaming backend_down 0 (generate_url default_settings)
          (build_payload default_settings (JString ''deepseek-coder:6.7b'')
             (JString ''Write Python hello world'') (JBool False)) (JString ''deepseek-coder:6.7b'')
        = (Inl (TransportError ''All connection attempts failed''), 1)"
    by (simp add: chat_non_streaming_def http_post_def backend_down_def)
  then have "chat default_settings plain_repr backend_down (Inr hello_request)
        = (Json200 (fallback_response plain_repr (JString ''Write Python hello world'')
                    (JString ''deepseek-coder:6.7b'')
                    (TransportError ''All connection attempts failed'')), 1)"
    using chat_fallback_step [OF hello_fields, of plain_repr backend_down] by simp
  then show ?thesis by (simp add: fallback_response_def py_str_def)
qed

text \<open>
  C2, amended. For every non-streaming chat request with a message, when the one
  attempt on the backend fails, the handler answers after that single POST with status
  200 and the synthetic body that explains the outage; its code-block list holds one
  synthetic python block and \<open>tokens_used\<close> is 0.
\<close>

theorem chat_fallback_single_attempt:
  assumes "dict_get data ''message'' (JString []) = Inr msg" and "truthy msg"
    and "dict_get data ''model_name'' (JString (DEFAULT_MODEL st)) = Inr model_name"
    and "dict_get data ''stream'' (JBool False) = Inr stream" and "\<not> truthy stream"
    and "attempt_fails (upstream 0 (generate_url st) (build_payload st model_name msg stream))"
  shows "\<exists>e. chat st repr upstream (Inr data)
               = (Json200 (fallback_response repr msg model_name e), 1)
           \<and> length (code_blocks (fallback_response repr msg model_name e)) = 1
           \<and> language (hd (code_blocks (fallback_response repr msg model_name e))) = ''python''
           \<and> tokens_used (fallback_response repr msg model_name e) = JInt 0
           \<and> prefix ''Test response (Ollama not available)''
                 (message (fallback_response repr msg model_name e))"
proof -
  from chat_non_streaming_fails [of upstream "generate_url st"
         "build_payload st model_name msg stream" model_name, OF assms(6)] obtain e where
    e: "chat_non_streaming upstream 0 (generate_url st)
          (build_payload st model_name msg stream) model_name = (Inl e, 1)" by blast
  have "chat st repr upstream (Inr data) = (Json200 (fallback_response repr msg model_name e), 1)"
    using chat_fallback_step [OF assms(1-5), of repr upstream] e by simp
  moreover have "length (code_blocks (fallback_response repr msg model_name e)) = 1
           \<and> language (hd (code_blocks (fallback_response repr msg model_name e))) = ''python''
           \<and> tokens_used (fallback_response repr msg model_name e) = JInt 0
           \<and> prefix ''Test response (Ollama not available)''
                 (message (fallback_response repr msg model_name e))"
    by (simp add: fallback_response_def)
  ultimately show ?thesis by blast
qed

theorem chat_fallback_single_attempt_witness:
  "dict_get hello_request ''message'' (JString []) = Inr (JString ''Write Python hello world'')
   \<and> truthy (JString ''Write Python hello world'')
   \<and> dict_get hello_request ''model_name'' (JString (DEFAULT_MODEL default_settings))
       = Inr (JString ''deepseek-coder:6.7b'')
   \<and> dict_get hello_request ''stream'' (JBool False) = Inr (JBool False)
   \<and> \<not> truthy (JBool False)
   \<and> attempt_fails (backend_down 0 (generate_url default_settings)
         (build_payload default_settings (JString ''deepseek-coder:6.7b'')
            (JString ''Write Python hello world'') (JBool False)))
   \<and> (\<exists>e. chat default_settings plain_repr backend_down (Inr hello_request)
               = (Json200 (fallback_response plain_repr (JString ''Write Python hello world'')
                    (JString ''deepseek-coder:6.7b'') e), 1))"
proof -
  have f: "attempt_fails (backend_down 0 (generate_url default_settings)
         (build_payload default_settings (JString ''deepseek-coder:6.7b'')
            (JString ''Write Python hello world'') (JBool False)))"
    by (simp add: attempt_fails_def backend_down_def)
  from chat_fallback_single_attempt [where upstream = backend_down and repr = plain_repr,
         OF hello_fields f]
  have "\<exists>e. chat default_settings plain_repr backend_down (Inr hello_request)
               = (Json200 (fallback_response plain_repr (JString ''Write Python hello world'')
                    (JString ''deepseek-coder:6.7b'') e), 1)" by blast
  then show ?thesis using hello_fields f by blast
qed

text \<open>
  C3 as stated fails: the non-streaming path decodes the whole body as one JSON
  document, so the three NDJSON frames are a decoding error and the answer is the
  fallback, whose message is not the concatenation and whose \<open>tokens_used\<close> is 0.
\<close>

theorem chat_ndjson_counterexample:
  "chat default_settings plain_repr ndjson_backend (Inr hello_request)
     = (Json200 (fallback_response plain_repr (JString ''Write Python hello world'')
                   (JString ''deepseek-coder:6.7b'') (JSONDecodeError ''Extra data'')), 1)
   \<and> message (fallback_response plain_repr (JString ''Write Python hello world'')
                   (JString ''deepseek-coder:6.7b'') (JSONDecodeError ''Extra data''))
       \<noteq> spec_expected_message
   \<and> tokens_used (fallback_response plain_repr (JString ''Write Python hello world'')
                   (JString ''deepseek-coder:6.7b'') (JSONDecodeError ''Extra data''))
       \<noteq> JInt 3"
proof -
  have "chat_non_streaming ndjson_backend 0 (generate_url default_settings)
          (build_payload default_settings (JString ''deepseek-coder:6.7b'')
             (JString ''Write Python hello world'') (JBool False)) (JString ''deepseek-coder:6.7b'')
        = (Inl (JSONDecodeError ''Extra data''), 1)"
    by (simp add: chat_non_streaming_def http_post_def ndjson_backend_def ndjson_frames_def
          raise_for_status_def response_json_def)
  then have "chat default_settings plain_repr ndjson_backend (Inr hello_request)
        = (Json200 (fallback_response plain_repr (JString ''Write Python hello world'')
                    (JString ''deepseek-coder:6.7b'') (JSONDecodeError ''Extra data'')), 1)"
    using chat_fallback_step [OF hello_fields, of plain_repr ndjson_backend] by simp
  then show ?thesis by (simp add: fallback_response_def spec_expected_message_def)
qed

text \<open>
  C3, amended. For every non-streaming chat request with a message whose backend
  answers with a success status and a body that is one JSON object with a string
  \<open>response\<close> field, the 200 body's \<open>message\<close> is that field and its \<open>model\<close> is the
  requested model; its \<open>code_blocks\<close> list is empty when no line of the field, stripped,
  starts with a fence.
\<close>

theorem chat_single_object_message:
  assumes "dict_get data ''message'' (JString []) = Inr msg" and "truthy msg"
    and "dict_get data ''model_name'' (JString (DEFAULT_MODEL st)) = Inr model_name"
    and "dict_get data ''stream'' (JBool False) = Inr stream" and "\<not> truthy stream"
    and "upstream 0 (generate_url st) (build_payload st model_name msg stream) = Inr response"
    and "200 \<le> status_code response" and "status_code response < 300"
    and "body_lines response = [Some (JObject kv)]"
    and "map_of kv ''response'' = Some (JString txt)"
  shows "\<exists>r. chat st repr upstream (Inr data) = (Json200 r, 1)
           \<and> message r = txt
           \<and> model r = model_name
           \<and> (list_all (\<lambda>l. \<not> prefix fence (strip l)) (split_on newline txt)
                \<longrightarrow> code_blocks r = [])"
proof -
  have "\<exists>d. chat_non_streaming upstream 0 (generate_url st)
          (build_payload st model_name msg stream) model_name
        = (Inr \<lparr> message = txt, conversation_id = 1, code_blocks = extract_code_blocks txt,
                 tokens_used = d, model = model_name \<rparr>, 1)"
    using assms(6-10)
    by (simp add: chat_non_streaming_def http_post_def raise_for_status_def response_json_def
          dict_get_def)
  then obtain d where "chat_non_streaming upstream 0 (generate_url st)
          (build_payload st model_name msg stream) model_name
        = (Inr \<lparr> message = txt, conversation_id = 1, code_blocks = extract_code_blocks txt,
                 tokens_used = d, model = model_name \<rparr>, 1)" by blast
  then have "chat st repr upstream (Inr data)
        = (Json200 \<lparr> message = txt, conversation_id = 1, code_blocks = extract_code_blocks txt,
                     tokens_used = d, model = model_name \<rparr>, 1)"
    using chat_fallback_step [OF assms(1-5), of repr upstream] by simp
  then show ?thesis by (simp add: extract_code_blocks_no_fence)
qed

theorem chat_single_object_message_witness:
  "dict_get hello_request ''message'' (JString []) = Inr (JString ''Write Python hello world'')
   \<and> truthy (JString ''Write Python hello world'')
   \<and> dict_get hello_request ''model_name'' (JString (DEFAULT_MODEL default_settings))
       = Inr (JString ''deepseek-coder:6.7b'')
   \<and> dict_get hello_request ''stream'' (JBool False) = Inr (JBool False)
   \<and> \<not> truthy (JBool False)
   \<and> list_all (\<lambda>l. \<not> prefix fence (strip l)) (split_on newline spec_expected_message)
   \<and> (\<exists>r. chat default_settings plain_repr single_object_backend (Inr hello_request) = (Json200 r, 1)
           \<and> message r = spec_expected_message
           \<and> model r = JString ''deepseek-coder:6.7b''
           \<and> code_blocks r = [])
   \<and> (\<exists>r. chat default_settings plain_repr fenced_backend (Inr hello_request) = (Json200 r, 1)
           \<and> message r = fenced_answer
           \<and> code_blocks r = [\<lparr> language = ''py'', code = ''a = 1'' \<rparr>])"
proof -
  let ?kv = "[(''response'', JString spec_expected_message),
              (''done'', JBool True), (''total_duration'', JInt 5000000)]"
  let ?resp = "\<lparr> status_code = 200, body_lines = [Some (JObject ?kv)] \<rparr>"
  have u: "single_object_backend 0 (generate_url default_settings)
             (build_payload default_settings (JString ''deepseek-coder:6.7b'')
                (JString ''Write Python hello world'') (JBool False)) = Inr ?resp"
    by (simp add: single_object_backend_def spec_expected_message_def)
  have s: "200 \<le> status_code ?resp" "status_code ?resp < 300"
    "body_lines ?resp = [Some (JObject ?kv)]"
    "map_of ?kv ''response'' = Some (JString spec_expected_message)"
    by simp_all
  from chat_single_object_message [where upstream = single_object_backend and repr = plain_repr,
         OF hello_fields u s] expected_message_lines
  have first: "\<exists>r. chat default_settings plain_repr single_object_backend (Inr hello_request) = (Json200 r, 1)
           \<and> message r = spec_expected_message
           \<and> model r = JString ''deepseek-coder:6.7b''
           \<and> code_blocks r = []" by blast
  let ?kv2 = "[(''response'', JString fenced_answer), (''done'', JBool True)]"
  let ?resp2 = "\<lparr> status_code = 200, body_lines = [Some (JObject ?kv2)] \<rparr>"
  have u2: "fenced_backend 0 (generate_url default_settings)
             (build_payload default_settings (JString ''deepseek-coder:6.7b'')
                (JString ''Write Python hello world'') (JBool False)) = Inr ?resp2"
    by (simp add: fenced_backend_def)
  have s2: "200 \<le> status_code ?resp2" "status_code ?resp2 < 300"
    "body_lines ?resp2 = [Some (JObject ?kv2)]"
    "map_of ?kv2 ''response'' = Some (JString fenced_answer)"
    by simp_all
  have run: "chat_non_streaming fenced_backend 0 (generate_url default_settings)
          (build_payload default_settings (JString ''deepseek-coder:6.7b'')
             (JString ''Write Python hello world'') (JBool False)) (JString ''deepseek-coder:6.7b'')
        = (Inr \<lparr> message = fenced_answer, conversation_id = 1,
                 code_blocks = extract_code_blocks fenced_answer,
                 tokens_used = JInt 0, model = JString ''deepseek-coder:6.7b'' \<rparr>, 1)"
    using u2 by (simp add: chat_non_streaming_def http_post_def raise_for_status_def
          response_json_def dict_get_def)
  have "chat default_settings plain_repr fenced_backend (Inr hello_request)
        = (Json200 \<lparr> message = fenced_answer, conversation_id = 1,
                     code_blocks = extract_code_blocks fenced_answer,
                     tokens_used = JInt 0, model = JString ''deepseek-coder:6.7b'' \<rparr>, 1)"
    using chat_fallback_step [OF hello_fields, of plain_repr fenced_backend] run by simp
  then have second: "\<exists>r. chat default_settings plain_repr fenced_backend (Inr hello_request) = (Json200 r, 1)
           \<and> message r = fenced_answer
           \<and> code_blocks r = [\<lparr> language = ''py'', code = ''a = 1'' \<rparr>]"
    by (simp add: fenced_answer_blocks)
  show ?thesis using first second hello_fields expected_message_lines by blast
qed

text \<open>
  C4 as stated fails: after five failed requests in a row a successful health check
  sets the healthy flag again, with the consecutive error count still at 5.
\<close>

theorem healthy_flag_counterexample:
  "\<not> spec_health_invariant (run_events (initial_registry ROUND_ROBIN) five_failures_then_probe)"
  by (simp add: spec_health_invariant_def five_failures_then_probe_state probed_instance_def
        new_InstanceMetrics_def)

text \<open>
  C4, amended. At every state of the registry reachable through its operations, a
  backend whose healthy flag is true has \<open>health_check_failures = 0\<close>. Right after a
  health check of a registered backend its healthy flag is the outcome of that check,
  whatever its consecutive error count, which the check leaves as it was; right after
  a failed \<open>update_metrics\<close> that leaves the count at 5 or more, the flag is false.
\<close>

theorem healthy_flag_reachable:
  assumes "s = run_events (initial_registry st) evs"
    and "get_instance_by_id (balancer s) iid = Some inst"
  shows "(is_healthy inst \<longrightarrow> health_check_failures inst = 0)
       \<and> (\<exists>inst'. get_instance_by_id (balancer (registry_step s (HealthCheck iid ok))) iid = Some inst'
                  \<and> is_healthy inst' = ok \<and> error_count inst' = error_count inst)
       \<and> (\<exists>inst'. get_instance_by_id
                     (balancer (registry_step s (UpdateMetrics iid False rt tk now))) iid = Some inst'
                  \<and> error_count inst' = error_count inst + 1
                  \<and> (5 \<le> error_count inst' \<longrightarrow> \<not> is_healthy inst'))"
proof -
  have "healthy_flag_ok s"
    using assms(1) by (simp add: run_events_inv initial_registry_inv)
  then have first: "is_healthy inst \<longrightarrow> health_check_failures inst = 0"
    using assms(2) by (simp add: healthy_flag_ok_def get_instance_by_id_def)
  have second: "\<exists>inst'. get_instance_by_id (balancer (registry_step s (HealthCheck iid ok))) iid = Some inst'
                  \<and> is_healthy inst' = ok \<and> error_count inst' = error_count inst"
    using assms(2)
    by (auto simp: get_instance_by_id_def has_instance_def check_instance_health_def
          mark_healthy_def mark_unhealthy_def map_of_map_entry)
  have third: "\<exists>inst'. get_instance_by_id
                     (balancer (registry_step s (UpdateMetrics iid False rt tk now))) iid = Some inst'
                  \<and> error_count inst' = error_count inst + 1
                  \<and> (5 \<le> error_count inst' \<longrightarrow> \<not> is_healthy inst')"
    using assms(2)
    by (auto simp: get_instance_by_id_def has_instance_def update_metrics_def
          update_metrics_instance_def Let_def map_of_map_entry)
  show ?thesis using first second third by blast
qed

theorem healthy_flag_reachable_witness:
  "get_instance_by_id (balancer (run_events (initial_registry ROUND_ROBIN) five_failures_then_probe)) ''ollama-1''
     = Some probed_instance
   \<and> is_healthy probed_instance
   \<and> health_check_failures probed_instance = 0
   \<and> (\<exists>inst'. get_instance_by_id
                 (balancer (registry_step (run_events (initial_registry ROUND_ROBIN) five_failures_then_probe)
                              (HealthCheck ''ollama-1'' False))) ''ollama-1'' = Some inst'
              \<and> is_healthy inst' = False \<and> error_count inst' = 5)
   \<and> (\<exists>inst'. get_instance_by_id
                 (balancer (registry_step (run_events (initial_registry ROUND_ROBIN) five_failures_then_probe)
                              (UpdateMetrics ''ollama-1'' False 30 0 6))) ''ollama-1'' = Some inst'
              \<and> error_count inst' = 6 \<and> \<not> is_healthy inst')"
proof -
  have h: "get_instance_by_id (balancer (run_events (initial_registry ROUND_ROBIN) five_failures_then_probe)) ''ollama-1''
     = Some probed_instance"
    by (simp add: get_instance_by_id_def five_failures_then_probe_state)
  have p: "is_healthy probed_instance" "error_count probed_instance = 5"
    by (simp_all add: probed_instance_def new_InstanceMetrics_def)
  have z: "health_check_failures probed_instance = 0"
    by (simp add: probed_instance_def new_InstanceMetrics_def)
  note t = healthy_flag_reachable [OF refl h, of False 30 0 6]
  from t obtain a where a:
    "get_instance_by_id
       (balancer (registry_step (run_events (initial_registry ROUND_ROBIN) five_failures_then_probe)
                    (HealthCheck ''ollama-1'' False))) ''ollama-1'' = Some a"
    "is_healthy a = False" "error_count a = error_count probed_instance" by blast
  from t obtain b where b:
    "get_instance_by_id
       (balancer (registry_step (run_events (initial_registry ROUND_ROBIN) five_failures_then_probe)
                    (UpdateMetrics ''ollama-1'' False 30 0 6))) ''ollama-1'' = Some b"
    "error_count b = error_count probed_instance + 1"
    "5 \<le> error_count b \<longrightarrow> \<not> is_healthy b" by blast
  have a5: "error_count a = 5" using a(3) p(2) by simp
  have b6: "error_count b = 6" "\<not> is_healthy b" using b(2,3) p(2) by simp_all
  show ?thesis using h p(1) z a(1,2) a5 b(1) b6 by blast
qed

text \<open>
  C5 as stated fails: with two idle candidates, the code returns the first one in the
  registry's order although the second has fewer \<open>total_requests\<close>.
\<close>

theorem least_connections_tie_counterexample:
  "least_connections_select [idle_first, idle_second] = Inr idle_first
   \<and> \<not> spec_least_connections_choice [idle_first, idle_second] idle_first"
  by (simp add: least_connections_select_def spec_least_connections_choice_def
        idle_first_def idle_second_def new_InstanceMetrics_def)

text \<open>
  C5, amended. \<open>least_connections\<close> picks a candidate with the minimum
  \<open>active_connections\<close>; among several, the first in the candidate list (the registry's
  insertion order): every candidate before the chosen one has strictly more active
  connections.
\<close>

theorem least_connections_first_minimum:
  assumes "insts \<noteq> []"
  shows "\<exists>pre chosen post. insts = pre @ chosen # post
          \<and> least_connections_select insts = Inr chosen
          \<and> (\<forall>y\<in>set insts. active_connections chosen \<le> active_connections y)
          \<and> (\<forall>y\<in>set pre. active_connections chosen < active_connections y)"
proof -
  from assms obtain b xs where bx: "insts = b # xs" by (cases insts) auto
  from min_by_split [of b xs active_connections] obtain pre r post where
    s: "b # xs = pre @ r # post" "min_by active_connections b xs = r"
       "\<forall>y\<in>set pre. active_connections r < active_connections y"
       "\<forall>y\<in>set post. active_connections r \<le> active_connections y"
    by blast
  have "\<forall>y\<in>set insts. active_connections r \<le> active_connections y"
    using s bx by auto
  moreover have "least_connections_select insts = Inr r"
    using s(2) bx by (simp add: least_connections_select_def)
  ultimately show ?thesis using s(1,3) bx by blast
qed

theorem least_connections_first_minimum_witness:
  "[idle_first, idle_second] \<noteq> []
   \<and> (\<exists>pre chosen post. [idle_first, idle_second] = pre @ chosen # post
          \<and> least_connections_select [idle_first, idle_second] = Inr chosen
          \<and> (\<forall>y\<in>set [idle_first, idle_second]. active_connections chosen \<le> active_connections y)
          \<and> (\<forall>y\<in>set pre. active_connections chosen < active_connections y))"
  using least_connections_first_minimum [of "[idle_first, idle_second]"] by simp

text \<open>
  C6 as stated fails in its first half: the selector does not take the cursor modulo
  the number of candidates, it resets a cursor that is past the end to 0. After five
  requests over five backends the cursor is 5; with two backends then marked
  unhealthy, the next selection picks the first of the three candidates, where
  \<open>candidates[5 mod 3]\<close> is the third.
\<close>

theorem round_robin_reset_counterexample:
  "picked_id (fst (round_robin_select shrunk_balancer (healthy_instances shrunk_balancer)))
     = Some ''ollama-1''
   \<and> instance_id (spec_round_robin_pick shrunk_balancer (healthy_instances shrunk_balancer))
     = ''ollama-3''"
proof -
  let ?H = "healthy_instances shrunk_balancer"
  have len: "length ?H = 3"
    using arg_cong [OF shrunk_balancer_state(2), of length] by simp
  then have ne: "?H \<noteq> []" by auto
  have ids: "instance_id (?H ! 0) = ''ollama-1''" "instance_id (?H ! 2) = ''ollama-3''"
    using nth_map [of 0 ?H instance_id] nth_map [of 2 ?H instance_id] len
    by (simp_all add: shrunk_balancer_state(2))
  have start: "rr_start shrunk_balancer ?H = 0"
    using len by (simp add: rr_start_def shrunk_balancer_state(1))
  have "fst (round_robin_select shrunk_balancer ?H) = Inr (?H ! 0)"
    using round_robin_select_step [OF ne, of shrunk_balancer] start by simp
  then have a: "picked_id (fst (round_robin_select shrunk_balancer ?H)) = Some ''ollama-1''"
    using ids(1) by (simp add: picked_id_def)
  have "spec_round_robin_pick shrunk_balancer ?H = ?H ! 2"
    using len by (simp add: spec_round_robin_pick_def shrunk_balancer_state(1))
  then show ?thesis using a ids(2) by simp
qed

text \<open>
  C6, amended. Round robin over a fixed list of \<open>K\<close> distinct candidates. The selector
  resets the cursor to 0 when it is \<open>K\<close> or more, picks the candidate at the cursor and
  leaves the cursor one past the pick. The pick is \<open>candidates[cursor mod K]\<close> whenever
  the cursor is at most \<open>K\<close>, as it is in a new load balancer and after every
  selection. In \<open>N\<close> selections in a row, from any cursor, each candidate is picked
  \<open>\<lfloor>N/K\<rfloor>\<close> or \<open>\<lceil>N/K\<rceil>\<close> times.
\<close>

theorem round_robin_fair:
  assumes "insts \<noteq> []" and "distinct insts" and "c \<in> set insts"
  shows "round_robin_select lb insts
           = (Inr (insts ! (if length insts \<le> current_index lb then 0 else current_index lb)),
              lb\<lparr>current_index :=
                   (if length insts \<le> current_index lb then 0 else current_index lb) + 1\<rparr>)
       \<and> (current_index lb \<le> length insts \<longrightarrow>
            round_robin_select lb insts
              = (Inr (insts ! (current_index lb mod length insts)),
                 lb\<lparr>current_index := current_index lb mod length insts + 1\<rparr>))
       \<and> current_index (snd (round_robin_select lb insts)) \<le> length insts
       \<and> (count_list (round_robin_run N lb insts) (Inr c) = N div length insts
          \<or> count_list (round_robin_run N lb insts) (Inr c) = (N + length insts - 1) div length insts)"
proof -
  let ?K = "length insts"
  have K: "0 < ?K" using assms(1) by simp
  have c0: "rr_start lb insts < ?K" using assms(1) by (simp add: rr_start_def)
  have "current_index lb \<le> ?K \<Longrightarrow> rr_start lb insts = current_index lb mod ?K"
    by (auto simp: rr_start_def)
  then have first: "current_index lb \<le> ?K \<longrightarrow> round_robin_select lb insts
              = (Inr (insts ! (current_index lb mod ?K)),
                 lb\<lparr>current_index := current_index lb mod ?K + 1\<rparr>)"
    using assms(1) by (simp add: round_robin_select_step)
  have zeroth: "round_robin_select lb insts
           = (Inr (insts ! (if length insts \<le> current_index lb then 0 else current_index lb)),
              lb\<lparr>current_index :=
                   (if length insts \<le> current_index lb then 0 else current_index lb) + 1\<rparr>)"
    using round_robin_select_step [OF assms(1), of lb] by (simp add: rr_start_def)
  have second: "current_index (snd (round_robin_select lb insts)) \<le> ?K"
    using c0 assms(1) by (simp add: round_robin_select_step)
  from assms(3) obtain j where j: "j < ?K" "c = insts ! j" by (auto simp: in_set_conv_nth)
  have cnt: "count_list (round_robin_run N lb insts) (Inr c)
          = N div ?K + (if (j + ?K - rr_start lb insts) mod ?K < N mod ?K then 1 else 0)"
    using assms(1,2) c0 j by (simp add: round_robin_run_cyclic cyclic_count)
  have ceil: "(N + ?K - 1) div ?K = (if N mod ?K = 0 then N div ?K else N div ?K + 1)"
    using K by (rule ceil_div)
  have third: "count_list (round_robin_run N lb insts) (Inr c) = N div ?K
          \<or> count_list (round_robin_run N lb insts) (Inr c) = (N + ?K - 1) div ?K"
  proof (cases "(j + ?K - rr_start lb insts) mod ?K < N mod ?K")
    case True
    then have "N mod ?K \<noteq> 0" by simp
    then show ?thesis using cnt True ceil by simp
  next
    case False
    then show ?thesis using cnt by simp
  qed
  show ?thesis using zeroth first second third by blast
qed

theorem round_robin_fair_witness:
  "[idle_first, idle_second] \<noteq> [] \<and> distinct [idle_first, idle_second]
   \<and> idle_first \<in> set [idle_first, idle_second]
   \<and> current_index (new_LoadBalancer ROUND_ROBIN) \<le> length [idle_first, idle_second]
   \<and> round_robin_select (new_LoadBalancer ROUND_ROBIN) [idle_first, idle_second]
        = (Inr idle_first, (new_LoadBalancer ROUND_ROBIN)\<lparr>current_index := 1\<rparr>)
   \<and> round_robin_select ((new_LoadBalancer ROUND_ROBIN)\<lparr>current_index := 5\<rparr>) [idle_first, idle_second]
        = (Inr idle_first, (new_LoadBalancer ROUND_ROBIN)\<lparr>current_index := 1\<rparr>)
   \<and> (count_list (round_robin_run 3 (new_LoadBalancer ROUND_ROBIN) [idle_first, idle_second]) (Inr idle_first) = 1
      \<or> count_list (round_robin_run 3 (new_LoadBalancer ROUND_ROBIN) [idle_first, idle_second]) (Inr idle_first) = 2)"
proof -
  have ne: "[idle_first, idle_second] \<noteq> []" by simp
  have d: "distinct [idle_first, idle_second]"
    by (simp add: idle_first_def idle_second_def new_InstanceMetrics_def)
  have m: "idle_first \<in> set [idle_first, idle_second]" by simp
  have c: "current_index (new_LoadBalancer ROUND_ROBIN) \<le> length [idle_first, idle_second]"
    by (simp add: new_LoadBalancer_def)
  have z: "current_index (new_LoadBalancer ROUND_ROBIN) = 0" by (simp add: new_LoadBalancer_def)
  have l: "length [idle_first, idle_second] = 2" by simp
  have a: "(3::nat) div 2 = 1" "((3::nat) + 2 - 1) div 2 = 2" "(0::nat) mod 2 + 1 = 1"
    by simp_all
  have fresh: "round_robin_select (new_LoadBalancer ROUND_ROBIN) [idle_first, idle_second]
        = (Inr idle_first, (new_LoadBalancer ROUND_ROBIN)\<lparr>current_index := 1\<rparr>)
      \<and> (count_list (round_robin_run 3 (new_LoadBalancer ROUND_ROBIN) [idle_first, idle_second]) (Inr idle_first) = 1
         \<or> count_list (round_robin_run 3 (new_LoadBalancer ROUND_ROBIN) [idle_first, idle_second]) (Inr idle_first) = 2)"
    using round_robin_fair [OF ne d m, of "new_LoadBalancer ROUND_ROBIN" 3]
    unfolding l z a by simp
  have past: "round_robin_select ((new_LoadBalancer ROUND_ROBIN)\<lparr>current_index := 5\<rparr>) [idle_first, idle_second]
        = (Inr idle_first, (new_LoadBalancer ROUND_ROBIN)\<lparr>current_index := 1\<rparr>)"
    using round_robin_fair [OF ne d m, of "(new_LoadBalancer ROUND_ROBIN)\<lparr>current_index := 5\<rparr>" 3]
    by simp
  show ?thesis using ne d m c fresh past by blast
qed




text \<open>
  C8 as stated fails. When the service was unreachable at \<open>initialize\<close>,
  \<open>self.redis\<close> is \<open>None\<close>: \<open>get\<close> and \<open>set\<close> return a miss and \<open>False\<close> at once and do
  not count an error.
\<close>

theorem cache_never_connected_counterexample:
  "unreachable unreachable_server
   \<and> cache_get text_codec (cache_initialize new_CacheService unreachable_server) unreachable_server ''abc''
       = (Inr None, cache_initialize new_CacheService unreachable_server)
   \<and> cache_set text_codec 3600 (cache_initialize new_CacheService unreachable_server) unreachable_server
         ''abc'' ''hello'' None
       = (Inr False, cache_initialize new_CacheService unreachable_server)
   \<and> errors (cache_initialize new_CacheService unreachable_server) = 0"
proof -
  have r: "redis (cache_initialize new_CacheService unreachable_server) = None"
    "errors (cache_initialize new_CacheService unreachable_server) = 0"
    by (simp_all add: cache_initialize_def new_CacheService_def unreachable_server_def)
  show ?thesis
    using unreachable_server_unreachable r by (simp add: cache_get_def cache_set_def)
qed

text \<open>
  C8, amended. While the service is unreachable, every \<open>get\<close> returns a miss and every
  \<open>set\<close> returns \<open>False\<close>, and neither raises. On a service object that holds a client
  (\<open>self.redis\<close> is not \<open>None\<close>) each such operation adds one to the error counter and
  changes nothing else; on one that holds none, which is what an \<open>initialize\<close> against
  the unreachable service leaves, the operation changes no counter.
\<close>

theorem cache_unreachable:
  assumes "unreachable srv"
  shows "fst (cache_get json_loads cs srv key) = Inr None
       \<and> fst (cache_set json_dumps cache_ttl cs srv key val ttl) = Inr False
       \<and> (redis cs \<noteq> None \<longrightarrow>
            snd (cache_get json_loads cs srv key) = cs\<lparr>errors := errors cs + 1\<rparr>
            \<and> snd (cache_set json_dumps cache_ttl cs srv key val ttl) = cs\<lparr>errors := errors cs + 1\<rparr>)
       \<and> (redis cs = None \<longrightarrow>
            snd (cache_get json_loads cs srv key) = cs
            \<and> snd (cache_set json_dumps cache_ttl cs srv key val ttl) = cs)
       \<and> redis (cache_initialize cs srv) = None"
proof -
  from assms obtain e1 where g: "redis_get srv (key_prefix cs @ key) = Inl e1"
    unfolding unreachable_def by blast
  from assms have s: "\<And>t v. \<exists>e. redis_setex srv (key_prefix cs @ key) t v = Inl e"
    unfolding unreachable_def by blast
  from assms obtain e3 where p: "redis_ping srv = Inl e3"
    unfolding unreachable_def by blast
  have get: "cache_get json_loads cs srv key
               = (if redis cs = None then (Inr None, cs) else (Inr None, cs\<lparr>errors := errors cs + 1\<rparr>))"
    using g by (simp add: cache_get_def cache_get_try_def Let_def)
  have set_try: "\<exists>e. cache_set_try json_dumps cache_ttl cs srv key val ttl = (Inl e, cs)"
  proof (cases "json_dumps val")
    case (Inl e)
    then show ?thesis by (simp add: cache_set_try_def Let_def)
  next
    case (Inr serialized)
    let ?ttl1 = "if ttl \<noteq> None \<and> ttl \<noteq> Some 0 then the ttl else cache_ttl"
    from s [of ?ttl1 serialized] obtain e2 where
      "redis_setex srv (key_prefix cs @ key) ?ttl1 serialized = Inl e2" by blast
    then show ?thesis using Inr by (simp add: cache_set_try_def Let_def)
  qed
  then have set: "cache_set json_dumps cache_ttl cs srv key val ttl
               = (if redis cs = None then (Inr False, cs) else (Inr False, cs\<lparr>errors := errors cs + 1\<rparr>))"
    by (auto simp: cache_set_def)
  have init: "redis (cache_initialize cs srv) = None"
    using p by (simp add: cache_initialize_def)
  show ?thesis using get set init by simp
qed

theorem cache_unreachable_witness:
  "unreachable unreachable_server
   \<and> redis connected_cache \<noteq> None
   \<and> cache_get text_codec connected_cache unreachable_server ''abc''
       = (Inr None, connected_cache\<lparr>errors := 1\<rparr>)
   \<and> cache_set text_codec 3600 connected_cache unreachable_server ''abc'' ''hello'' None
       = (Inr False, connected_cache\<lparr>errors := 1\<rparr>)
   \<and> redis new_CacheService = None
   \<and> cache_get text_codec new_CacheService unreachable_server ''abc'' = (Inr None, new_CacheService)
   \<and> cache_set text_codec 3600 new_CacheService unreachable_server ''abc'' ''hello'' None
       = (Inr False, new_CacheService)"
proof -
  have u: "unreachable unreachable_server" by (rule unreachable_server_unreachable)
  have c: "redis connected_cache \<noteq> None" "errors connected_cache = 0"
    by (simp_all add: connected_cache_def new_CacheService_def)
  have n: "redis new_CacheService = None" by (simp add: new_CacheService_def)
  show ?thesis
    using cache_unreachable [OF u, of text_codec connected_cache "''abc''" text_codec 3600 "''hello''" None]
      cache_unreachable [OF u, of text_codec new_CacheService "''abc''" text_codec 3600 "''hello''" None]
      u c n
    by (simp add: prod_eq_iff)
qed

text \<open>
  C9. \<open>update_metrics\<close> on a registered backend: \<open>active_connections\<close> is
  decremented and floored at 0; on success the error count is reset to 0 and
  \<open>average_response_time\<close> is \<open>total_response_time / successful_requests\<close>; on failure
  the error count is incremented and the healthy flag is cleared once the count is 5 or
  more (and otherwise left as it was). In both cases the invariant \<open>average_ok\<close>
  (the average is the quotient, and 0 when there is no successful request) is kept.
\<close>

theorem update_metrics_registered:
  assumes "get_instance_by_id lb iid = Some inst"
  shows "\<exists>inst'. get_instance_by_id (update_metrics lb iid success response_time tokens now) iid = Some inst'
       \<and> active_connections inst' = max 0 (active_connections inst - 1)
       \<and> 0 \<le> active_connections inst'
       \<and> (success \<longrightarrow> error_count inst' = 0
             \<and> (0 \<le> successful_requests inst \<longrightarrow>
                  average_response_time inst'
                    = total_response_time inst' / real_of_int (successful_requests inst')))
       \<and> (\<not> success \<longrightarrow> error_count inst' = error_count inst + 1
             \<and> (5 \<le> error_count inst' \<longrightarrow> \<not> is_healthy inst')
             \<and> (error_count inst' < 5 \<longrightarrow> is_healthy inst' = is_healthy inst))
       \<and> (average_ok inst \<longrightarrow> average_ok inst')"
proof -
  let ?f = "update_metrics_instance success response_time tokens now"
  have reg: "has_instance lb iid"
    using assms by (simp add: has_instance_def get_instance_by_id_def)
  have lookup: "get_instance_by_id (update_metrics lb iid success response_time tokens now) iid
                  = Some (?f inst)"
    using assms reg by (simp add: update_metrics_def get_instance_by_id_def get_after_map_entry)
  have props: "active_connections (?f inst) = max 0 (active_connections inst - 1)
       \<and> 0 \<le> active_connections (?f inst)
       \<and> (success \<longrightarrow> error_count (?f inst) = 0
             \<and> (0 \<le> successful_requests inst \<longrightarrow>
                  average_response_time (?f inst)
                    = total_response_time (?f inst) / real_of_int (successful_requests (?f inst))))
       \<and> (\<not> success \<longrightarrow> error_count (?f inst) = error_count inst + 1
             \<and> (5 \<le> error_count (?f inst) \<longrightarrow> \<not> is_healthy (?f inst))
             \<and> (error_count (?f inst) < 5 \<longrightarrow> is_healthy (?f inst) = is_healthy inst))
       \<and> (average_ok inst \<longrightarrow> average_ok (?f inst))"
    by (simp add: update_metrics_instance_def average_ok_def Let_def)
  show ?thesis using lookup props by blast
qed

theorem update_metrics_registered_witness:
  "get_instance_by_id example_lb ''ollama-1'' = Some example_instance
   \<and> (\<exists>inst'. get_instance_by_id (update_metrics example_lb ''ollama-1'' False 1 0 9) ''ollama-1'' = Some inst'
         \<and> active_connections inst' = 0 \<and> error_count inst' = 5 \<and> \<not> is_healthy inst')
   \<and> (\<exists>inst'. get_instance_by_id (update_metrics example_lb ''ollama-1'' True 4 10 9) ''ollama-1'' = Some inst'
         \<and> active_connections inst' = 0 \<and> error_count inst' = 0
         \<and> average_response_time inst' = 3 \<and> average_ok inst')"
proof -
  have h: "get_instance_by_id example_lb ''ollama-1'' = Some example_instance"
    by (simp add: get_instance_by_id_def example_lb_def)
  have ok: "average_ok example_instance"
    by (simp add: average_ok_def example_instance_def new_InstanceMetrics_def)
  have vals: "active_connections example_instance = 1" "error_count example_instance = 4"
    "successful_requests example_instance = 1"
    by (simp_all add: example_instance_def new_InstanceMetrics_def)
  have t: "total_response_time
             (update_metrics_instance True 4 10 9 example_instance) = 6"
    "successful_requests (update_metrics_instance True 4 10 9 example_instance) = 2"
    by (simp_all add: update_metrics_instance_def example_instance_def new_InstanceMetrics_def)
  from update_metrics_registered [OF h, of False 1 0 9]
  have a: "\<exists>inst'. get_instance_by_id (update_metrics example_lb ''ollama-1'' False 1 0 9) ''ollama-1'' = Some inst'
         \<and> active_connections inst' = 0 \<and> error_count inst' = 5 \<and> \<not> is_healthy inst'"
    using vals by auto
  from update_metrics_registered [OF h, of True 4 10 9]
  obtain inst' where b: "get_instance_by_id (update_metrics example_lb ''ollama-1'' True 4 10 9) ''ollama-1'' = Some inst'"
     "active_connections inst' = max 0 (active_connections example_instance - 1)"
     "error_count inst' = 0"
     "average_response_time inst' = total_response_time inst' / real_of_int (successful_requests inst')"
     "average_ok inst'"
    using vals ok by auto
  have c: "inst' = update_metrics_instance True 4 10 9 example_instance"
    using b(1) h by (simp add: update_metrics_def get_instance_by_id_def has_instance_def get_after_map_entry)
  have "average_response_time inst' = 3" using b(4) t c by simp
  with b vals have "\<exists>inst'. get_instance_by_id (update_metrics example_lb ''ollama-1'' True 4 10 9) ''ollama-1'' = Some inst'
         \<and> active_connections inst' = 0 \<and> error_count inst' = 0
         \<and> average_response_time inst' = 3 \<and> average_ok inst'" by auto
  with a h show ?thesis by blast
qed

text \<open>
  C10. For an instance id that is not in the registry, \<open>release_instance\<close>,
  \<open>update_metrics\<close>, \<open>mark_unhealthy\<close> and \<open>mark_healthy\<close> return (the model has no
  error branch for them, as the code has no raise on these paths) and leave the whole
  load-balancer state unchanged.
\<close>

theorem unknown_id_frame:
  assumes "get_instance_by_id lb iid = None"
  shows "release_instance lb iid = lb
       \<and> update_metrics lb iid success response_time tokens now = lb
       \<and> mark_unhealthy lb iid = lb
       \<and> mark_healthy lb iid = lb"
  using assms
  by (simp add: get_instance_by_id_def release_instance_def update_metrics_def
        mark_unhealthy_def mark_healthy_def has_instance_def)

theorem unknown_id_frame_witness:
  "get_instance_by_id (add_instance (new_LoadBalancer ROUND_ROBIN) ''ollama-1'' ''http://a/'' 1) ''ollama-2'' = None
   \<and> release_instance (add_instance (new_LoadBalancer ROUND_ROBIN) ''ollama-1'' ''http://a/'' 1) ''ollama-2''
       = add_instance (new_LoadBalancer ROUND_ROBIN) ''ollama-1'' ''http://a/'' 1
   \<and> update_metrics (add_instance (new_LoadBalancer ROUND_ROBIN) ''ollama-1'' ''http://a/'' 1) ''ollama-2'' False 2 0 7
       = add_instance (new_LoadBalancer ROUND_ROBIN) ''ollama-1'' ''http://a/'' 1
   \<and> mark_unhealthy (add_instance (new_LoadBalancer ROUND_ROBIN) ''ollama-1'' ''http://a/'' 1) ''ollama-2''
       = add_instance (new_LoadBalancer ROUND_ROBIN) ''ollama-1'' ''http://a/'' 1
   \<and> mark_healthy (add_instance (new_LoadBalancer ROUND_ROBIN) ''ollama-1'' ''http://a/'' 1) ''ollama-2''
       = add_instance (new_LoadBalancer ROUND_ROBIN) ''ollama-1'' ''http://a/'' 1"
proof -
  have h: "get_instance_by_id (add_instance (new_LoadBalancer ROUND_ROBIN) ''ollama-1'' ''http://a/'' 1) ''ollama-2'' = None"
    by (simp add: get_instance_by_id_def add_instance_def new_LoadBalancer_def has_instance_def)
  show ?thesis
    using h unknown_id_frame [OF h, of False 2 0 7] by simp
qed

end
